theory Spec2Isabelle
  imports Main "HOL-Library.Word" "HOL-Library.Sublist"
begin

section \<open>Hardware disk-encryption key gateway (cryptfs\_hw.c)\<close>

text \<open>
  The C file is embedded function by function. Conventions:
  \<^item> a C \<open>int\<close> is an \<open>int\<close>: the code only compares and returns such values, it does
    no arithmetic on them;
  \<^item> a \<open>char *\<close> argument is an \<open>option\<close>: \<open>None\<close> is the null pointer and \<open>Some s\<close>
    points to a NUL-terminated string whose characters before the terminator are \<open>s\<close>;
  \<^item> the file-level variables, the malloc heap and everything the file reads from the
    platform (property store, file system, dynamic linker, allocator, the TEE library)
    are fields of one record \<open>world\<close> that every function takes and returns;
  \<^item> calling through a null function pointer ends the process: such a call yields
    \<open>Inl Null_function_call\<close>, every other result is \<open>Inr\<close> of the returned \<open>int\<close>.
\<close>

subsection \<open>Constants of the file\<close>

type_synonym byte = "8 word"

abbreviation (input) QSEECOM_LIBRARY_NAME :: string where
  "QSEECOM_LIBRARY_NAME \<equiv> ''libQSEEComAPI.so''"

abbreviation (input) ERR_MAX_PASSWORD_ATTEMPTS :: int where
  "ERR_MAX_PASSWORD_ATTEMPTS \<equiv> - 10"

abbreviation (input) MAX_PASSWORD_LEN :: nat where
  "MAX_PASSWORD_LEN \<equiv> 32"

abbreviation (input) QTI_ICE_STORAGE_UFS :: int where
  "QTI_ICE_STORAGE_UFS \<equiv> 1"

abbreviation (input) QTI_ICE_STORAGE_SDCC :: int where
  "QTI_ICE_STORAGE_SDCC \<equiv> 2"

abbreviation (input) SET_HW_DISK_ENC_KEY :: int where
  "SET_HW_DISK_ENC_KEY \<equiv> 1"

abbreviation (input) UPDATE_HW_DISK_ENC_KEY :: int where
  "UPDATE_HW_DISK_ENC_KEY \<equiv> 2"

abbreviation (input) CRYPTFS_HW_UP_CHECK_COUNT :: nat where
  "CRYPTFS_HW_UP_CHECK_COUNT \<equiv> 100"

abbreviation (input) CRYPTFS_HW_UPDATE_KEY_FAILED :: int where
  "CRYPTFS_HW_UPDATE_KEY_FAILED \<equiv> - 9"

abbreviation (input) CRYPTFS_HW_WIPE_KEY_FAILED :: int where
  "CRYPTFS_HW_WIPE_KEY_FAILED \<equiv> - 8"

abbreviation (input) CRYPTFS_HW_CREATE_KEY_FAILED :: int where
  "CRYPTFS_HW_CREATE_KEY_FAILED \<equiv> - 7"

abbreviation (input) METADATA_PARTITION_NAME :: string where
  "METADATA_PARTITION_NAME \<equiv> ''/dev/block/bootdevice/by-name/metadata''"

text \<open>The values of \<open>enum cryptfs_hw_key_management_usage_type\<close>.\<close>

abbreviation (input) CRYPTFS_HW_KM_USAGE_DISK_ENCRYPTION :: int where
  "CRYPTFS_HW_KM_USAGE_DISK_ENCRYPTION \<equiv> 1"

abbreviation (input) CRYPTFS_HW_KM_USAGE_FILE_ENCRYPTION :: int where
  "CRYPTFS_HW_KM_USAGE_FILE_ENCRYPTION \<equiv> 2"

abbreviation (input) CRYPTFS_HW_KM_USAGE_UFS_ICE_DISK_ENCRYPTION :: int where
  "CRYPTFS_HW_KM_USAGE_UFS_ICE_DISK_ENCRYPTION \<equiv> 3"

abbreviation (input) CRYPTFS_HW_KM_USAGE_SDCC_ICE_DISK_ENCRYPTION :: int where
  "CRYPTFS_HW_KM_USAGE_SDCC_ICE_DISK_ENCRYPTION \<equiv> 4"

text \<open>
  Two macros come from headers of the platform, which are not part of this repository:
  \<open>PROPERTY_VALUE_MAX\<close> of \<open>cutils/properties.h\<close> is 92, and
  \<open>KEYMASTER_MODULE_API_VERSION_0_3\<close> of \<open>hardware/keymaster_common.h\<close> is
  \<open>HARDWARE_MODULE_API_VERSION(0, 3)\<close>, that is \<open>((0 & 0xff) << 8) | (3 & 0xff) = 3\<close>.
\<close>

abbreviation (input) PROPERTY_VALUE_MAX :: nat where
  "PROPERTY_VALUE_MAX \<equiv> 92"

definition KEYMASTER_MODULE_API_VERSION_0_3 :: int where
  "KEYMASTER_MODULE_API_VERSION_0_3 = 3"

subsection \<open>The state of the process and of its platform\<close>

text \<open>
  A block of the malloc heap keeps its bytes when it is freed; \<open>released\<close> records the
  call of \<open>free\<close>. A pointer into the heap is the index of its block, and every call of
  \<open>malloc\<close> that succeeds makes a new block, so every allocation stays visible.
\<close>

record block =
  bytes :: "byte list"
  released :: bool

text \<open>
  A call of an entry point of the TEE library: the symbol the function pointer was
  resolved from, the usage code, and the contents of the buffers passed.
\<close>

datatype tee_call = Tee_call string int "byte list list"

datatype dl_call = Dlopen string | Dlsym string | Dlclose

datatype fault = Null_function_call

text \<open>
  The first four fields are the static variables of the file; a function pointer is
  \<open>None\<close> (null) or the symbol it was resolved from. \<open>heap\<close>, \<open>mallocs\<close>, \<open>polls\<close>,
  \<open>dl_calls\<close> and \<open>tee_calls\<close> record what the process has done. The other fields are
  the platform: the outcome of the \<open>k\<close>-th call of \<open>malloc\<close> (\<open>None\<close>: it returns null,
  \<open>Some g\<close>: the fresh block holds the indeterminate bytes \<open>g 0, g 1, ...\<close>), the value
  of the property \<open>sys.keymaster.loaded\<close> at the \<open>k\<close>-th read (\<open>None\<close>: not set), the
  read-only property \<open>ro.boot.bootdevice\<close>, the paths that exist, whether \<open>dlopen\<close> and
  \<open>dlsym\<close> succeed on a name, the status the TEE returns on a call after a history of
  calls, and what \<open>hw_get_module_by_class\<close> reports for the keystore module (its
  return code and the \<open>module_api_version\<close> of the module found).
\<close>

record world =
  loaded_library :: int
  qseecom_create_key :: "string option"
  qseecom_update_key :: "string option"
  qseecom_wipe_key :: "string option"
  heap :: "block list"
  mallocs :: nat
  polls :: nat
  dl_calls :: "dl_call list"
  tee_calls :: "tee_call list"
  malloc_outcome :: "nat \<Rightarrow> (nat \<Rightarrow> byte) option"
  sys_keymaster_loaded :: "nat \<Rightarrow> string option"
  ro_boot_bootdevice :: "string option"
  path_exists :: "string \<Rightarrow> bool"
  dlopen_ok :: "string \<Rightarrow> bool"
  dlsym_ok :: "string \<Rightarrow> bool"
  tee_status :: "tee_call list \<Rightarrow> tee_call \<Rightarrow> int"
  keystore_rc :: int
  keystore_module_api_version :: "16 word"

subsection \<open>The C library and the platform, as far as the file uses them\<close>

text \<open>
  \<open>strcmp\<close> and \<open>strncmp\<close> return 0 on equal strings; the file only tests the result
  against 0, so every other result is 1 here.
\<close>

definition strcmp :: "string \<Rightarrow> string \<Rightarrow> int" where
  "strcmp s1 s2 = (if s1 = s2 then 0 else 1)"

definition strncmp :: "string \<Rightarrow> string \<Rightarrow> nat \<Rightarrow> int" where
  "strncmp s1 s2 n = (if take n s1 = take n s2 then 0 else 1)"

definition strnlen :: "byte list \<Rightarrow> nat \<Rightarrow> nat" where
  "strnlen s maxlen = min (length s) maxlen"

text \<open>\<open>strstr\<close>: the first place where the needle starts, as the rest of the haystack.\<close>

fun strstr :: "string \<Rightarrow> string \<Rightarrow> string option" where
  "strstr [] needle = (if needle = [] then Some [] else None)"
| "strstr (c # cs) needle =
     (if prefix needle (c # cs) then Some (c # cs) else strstr cs needle)"

definition memcpy :: "byte list \<Rightarrow> byte list \<Rightarrow> nat \<Rightarrow> byte list" where
  "memcpy dest src n = take n src @ drop n dest"

text \<open>
  \<open>property_get\<close> delivers the stored value, or the default when the property is not
  set or empty, and returns the length of what it delivered.
\<close>

definition property_get :: "string option \<Rightarrow> string \<Rightarrow> int \<times> string" where
  "property_get stored default_value =
     (let v = (case stored of None \<Rightarrow> default_value
               | Some s \<Rightarrow> if s = [] then default_value else s)
      in (int (length v), v))"

definition access :: "world \<Rightarrow> string \<Rightarrow> int" where
  "access w path = (if path_exists w path then 0 else - 1)"

definition malloc :: "nat \<Rightarrow> world \<Rightarrow> nat option \<times> world" where
  "malloc n w =
     (case malloc_outcome w (mallocs w) of
        None \<Rightarrow> (None, w\<lparr>mallocs := mallocs w + 1\<rparr>)
      | Some g \<Rightarrow>
          (Some (length (heap w)),
           w\<lparr>mallocs := mallocs w + 1,
             heap := heap w @ [\<lparr>bytes = map g [0..<n], released = False\<rparr>]\<rparr>))"

definition peek :: "world \<Rightarrow> nat \<Rightarrow> byte list" where
  "peek w p = (if p < length (heap w) then bytes (heap w ! p) else [])"

definition poke :: "nat \<Rightarrow> byte list \<Rightarrow> world \<Rightarrow> world" where
  "poke p bs w =
     (if p < length (heap w) then w\<lparr>heap := (heap w)[p := (heap w ! p)\<lparr>bytes := bs\<rparr>]\<rparr>
      else w)"

text \<open>\<open>free(NULL)\<close> does nothing.\<close>

definition free :: "nat option \<Rightarrow> world \<Rightarrow> world" where
  "free ptr w =
     (case ptr of None \<Rightarrow> w
      | Some p \<Rightarrow>
          if p < length (heap w) then w\<lparr>heap := (heap w)[p := (heap w ! p)\<lparr>released := True\<rparr>]\<rparr>
          else w)"

definition dl_log :: "dl_call \<Rightarrow> world \<Rightarrow> world" where
  "dl_log c w = w\<lparr>dl_calls := dl_calls w @ [c]\<rparr>"

text \<open>\<open>dlsym\<close> returns the address of the symbol, or null with \<open>dlerror\<close> set.\<close>

definition dlsym :: "world \<Rightarrow> string \<Rightarrow> string option" where
  "dlsym w symbol = (if dlsym_ok w symbol then Some symbol else None)"

definition dlerror :: "world \<Rightarrow> string \<Rightarrow> string option" where
  "dlerror w symbol = (if dlsym_ok w symbol then None else Some (''undefined symbol: '' @ symbol))"

text \<open>
  A call through one of the three function pointers, with the buffers its pointer
  arguments designate. The entry points are outside this file: a call is recorded,
  its status is what the platform's \<open>tee_status\<close> gives, and the entry points are
  taken to read the buffers they are passed, not to write to them.
\<close>

definition call_ptr :: "string option \<Rightarrow> int \<Rightarrow> nat list \<Rightarrow> world \<Rightarrow> (fault + int) \<times> world" where
  "call_ptr fp usage ptrs w =
     (case fp of None \<Rightarrow> (Inl Null_function_call, w)
      | Some f \<Rightarrow>
          (let c = Tee_call f usage (map (peek w) ptrs)
           in (Inr (tee_status w (tee_calls w) c), w\<lparr>tee_calls := tee_calls w @ [c]\<rparr>)))"

subsection \<open>The functions of the file\<close>

text \<open>\<open>secure_memset\<close>: the loop \<open>while (n--) *p++ = c\<close>, with \<open>p\<close> as an index.\<close>

fun secure_memset_loop :: "byte list \<Rightarrow> nat \<Rightarrow> byte \<Rightarrow> nat \<Rightarrow> byte list" where
  "secure_memset_loop v p c 0 = v"
| "secure_memset_loop v p c (Suc n) = secure_memset_loop (v[p := c]) (Suc p) c n"

definition secure_memset :: "nat \<Rightarrow> byte \<Rightarrow> nat \<Rightarrow> world \<Rightarrow> world" where
  "secure_memset v c n w = poke v (secure_memset_loop (peek w v) 0 c n) w"

text \<open>
  \<open>is_qseecom_up\<close>: the \<open>for\<close> loop, with its counter as the first argument.
  \<open>usleep\<close> only lets time pass; what changes with time is the property, which the
  platform gives by the number of the poll.
\<close>

function is_qseecom_up_loop :: "nat \<Rightarrow> world \<Rightarrow> int \<times> world" where
  "is_qseecom_up_loop i w =
     (if i < CRYPTFS_HW_UP_CHECK_COUNT then
        (if strncmp (snd (property_get (sys_keymaster_loaded w (polls w)) ''''))
              ''true'' PROPERTY_VALUE_MAX = 0
         then (1, w\<lparr>polls := polls w + 1\<rparr>)
         else is_qseecom_up_loop (i + 1) (w\<lparr>polls := polls w + 1\<rparr>))
      else (0, w))"
  by pat_completeness auto
termination
  by (relation "measure (\<lambda>(i, w). CRYPTFS_HW_UP_CHECK_COUNT - i)") auto

declare is_qseecom_up_loop.simps [simp del]

definition is_qseecom_up :: "world \<Rightarrow> int \<times> world" where
  "is_qseecom_up w = is_qseecom_up_loop 0 w"

definition load_qseecom_library :: "world \<Rightarrow> int \<times> world" where
  "load_qseecom_library w =
     (if loaded_library w \<noteq> 0 then (loaded_library w, w)
      else
        (case is_qseecom_up w of (up, w1) \<Rightarrow>
          if up = 0 then (0, w1)
          else
            (let w2 = dl_log (Dlopen QSEECOM_LIBRARY_NAME) w1 in
             if dlopen_ok w2 QSEECOM_LIBRARY_NAME then
               (let w3 = (dl_log (Dlsym ''QSEECom_create_key'') w2)
                           \<lparr>qseecom_create_key := dlsym w2 ''QSEECom_create_key''\<rparr> in
                if dlerror w3 ''QSEECom_create_key'' = None then
                  (let w4 = (dl_log (Dlsym ''QSEECom_update_key_user_info'') w3)
                              \<lparr>qseecom_update_key := dlsym w3 ''QSEECom_update_key_user_info''\<rparr> in
                   if dlerror w4 ''QSEECom_update_key_user_info'' = None then
                     (let w5 = (dl_log (Dlsym ''QSEECom_wipe_key'') w4)
                                 \<lparr>qseecom_wipe_key := dlsym w4 ''QSEECom_wipe_key''\<rparr> in
                      if dlerror w5 ''QSEECom_wipe_key'' = None then
                        (1, w5\<lparr>loaded_library := 1\<rparr>)
                      else (loaded_library w5, dl_log Dlclose w5))
                   else (loaded_library w4, dl_log Dlclose w4))
                else (loaded_library w3, dl_log Dlclose w3))
             else (loaded_library w2, w2))))"

definition cryptfs_hw_create_key :: "int \<Rightarrow> nat \<Rightarrow> world \<Rightarrow> (fault + int) \<times> world" where
  "cryptfs_hw_create_key usage hash32 w =
     (case load_qseecom_library w of (l, w1) \<Rightarrow>
        if l \<noteq> 0 then call_ptr (qseecom_create_key w1) usage [hash32] w1
        else (Inr CRYPTFS_HW_CREATE_KEY_FAILED, w1))"

definition cryptfs_hw_wipe_key :: "int \<Rightarrow> world \<Rightarrow> (fault + int) \<times> world" where
  "cryptfs_hw_wipe_key usage w =
     (case load_qseecom_library w of (l, w1) \<Rightarrow>
        if l \<noteq> 0 then call_ptr (qseecom_wipe_key w1) usage [] w1
        else (Inr CRYPTFS_HW_WIPE_KEY_FAILED, w1))"

definition cryptfs_hw_update_key :: "int \<Rightarrow> nat \<Rightarrow> nat \<Rightarrow> world \<Rightarrow> (fault + int) \<times> world" where
  "cryptfs_hw_update_key usage current_hash32 new_hash32 w =
     (case load_qseecom_library w of (l, w1) \<Rightarrow>
        if l \<noteq> 0 then call_ptr (qseecom_update_key w1) usage [current_hash32, new_hash32] w1
        else (Inr CRYPTFS_HW_UPDATE_KEY_FAILED, w1))"

definition is_ice_enabled :: "world \<Rightarrow> int" where
  "is_ice_enabled w =
     (if access w METADATA_PARTITION_NAME = 0 then 0
      else
        (case property_get (ro_boot_bootdevice w) '''' of (n, prop_storage) \<Rightarrow>
           if n \<noteq> 0 then
             (if strstr prop_storage ''ufs'' \<noteq> None then QTI_ICE_STORAGE_UFS
              else if strstr prop_storage ''sdhc'' \<noteq> None then
                (if access w ''/dev/icesdcc'' \<noteq> - 1 then QTI_ICE_STORAGE_SDCC else 0)
              else 0)
           else 0))"

definition map_usage :: "world \<Rightarrow> int \<Rightarrow> int" where
  "map_usage w usage =
     (let storage_type = is_ice_enabled w in
      if usage = CRYPTFS_HW_KM_USAGE_DISK_ENCRYPTION then
        (if storage_type = QTI_ICE_STORAGE_UFS then CRYPTFS_HW_KM_USAGE_UFS_ICE_DISK_ENCRYPTION
         else if storage_type = QTI_ICE_STORAGE_SDCC then CRYPTFS_HW_KM_USAGE_SDCC_ICE_DISK_ENCRYPTION
         else usage)
      else usage)"

definition get_tmp_passwd :: "byte list option \<Rightarrow> world \<Rightarrow> nat option \<times> world" where
  "get_tmp_passwd passwd w =
     (case passwd of
        None \<Rightarrow> (None, w)
      | Some s \<Rightarrow>
          (case malloc MAX_PASSWORD_LEN w of
             (None, w1) \<Rightarrow> (None, w1)
           | (Some tmp_passwd, w1) \<Rightarrow>
               (let w2 = secure_memset tmp_passwd 0 MAX_PASSWORD_LEN w1;
                    passwd_len = strnlen s MAX_PASSWORD_LEN;
                    w3 = poke tmp_passwd (memcpy (peek w2 tmp_passwd) s passwd_len) w2
                in (Some tmp_passwd, w3))))"

definition is_hw_disk_encryption :: "string option \<Rightarrow> nat" where
  "is_hw_disk_encryption encryption_mode =
     (case encryption_mode of
        None \<Rightarrow> 0
      | Some m \<Rightarrow> if strcmp m ''aes-xts'' = 0 then 1 else 0)"

text \<open>
  Logging (\<open>SLOGE\<close>, \<open>SLOGD\<close>, \<open>SLOGI\<close>) changes nothing the file can observe and
  is left out; so is the test of \<open>err\<close> against \<open>ERR_MAX_PASSWORD_ATTEMPTS\<close> in
  \<open>set_key\<close>, whose only effect is a log line.
\<close>

definition set_key ::
  "byte list option \<Rightarrow> byte list option \<Rightarrow> string option \<Rightarrow> int \<Rightarrow> world \<Rightarrow> (fault + int) \<times> world" where
  "set_key currentpasswd passwd enc_mode operation w =
     (if is_hw_disk_encryption enc_mode \<noteq> 0 then
        (case get_tmp_passwd passwd w of (tmp_passwd, w1) \<Rightarrow>
         case get_tmp_passwd currentpasswd w1 of (tmp_currentpasswd, w2) \<Rightarrow>
           (case tmp_passwd of
              None \<Rightarrow> (Inr (- 1), w2)
            | Some tp \<Rightarrow>
                (case
                   (if operation = UPDATE_HW_DISK_ENC_KEY then
                      (case tmp_currentpasswd of
                         None \<Rightarrow> (Inr (- 1), w2)
                       | Some tc \<Rightarrow>
                           (case cryptfs_hw_update_key
                                   (map_usage w2 CRYPTFS_HW_KM_USAGE_DISK_ENCRYPTION) tc tp w2 of
                              (Inl f, w3) \<Rightarrow> (Inl f, w3)
                            | (Inr err, w3) \<Rightarrow>
                                (Inr err, secure_memset tc 0 MAX_PASSWORD_LEN w3)))
                    else if operation = SET_HW_DISK_ENC_KEY then
                      cryptfs_hw_create_key
                        (map_usage w2 CRYPTFS_HW_KM_USAGE_DISK_ENCRYPTION) tp w2
                    else (Inr (- 1), w2))
                 of
                   (Inl f, w4) \<Rightarrow> (Inl f, w4)
                 | (Inr err, w4) \<Rightarrow>
                     (Inr err,
                      free tmp_currentpasswd
                        (free (Some tp) (secure_memset tp 0 MAX_PASSWORD_LEN w4))))))
      else (Inr (- 1), w))"

definition set_hw_device_encryption_key ::
  "byte list option \<Rightarrow> string option \<Rightarrow> world \<Rightarrow> (fault + int) \<times> world" where
  "set_hw_device_encryption_key passwd enc_mode w =
     set_key None passwd enc_mode SET_HW_DISK_ENC_KEY w"

definition update_hw_device_encryption_key ::
  "byte list option \<Rightarrow> byte list option \<Rightarrow> string option \<Rightarrow> world \<Rightarrow> (fault + int) \<times> world" where
  "update_hw_device_encryption_key oldpw newpw enc_mode w =
     set_key oldpw newpw enc_mode UPDATE_HW_DISK_ENC_KEY w"

definition clear_hw_device_encryption_key :: "world \<Rightarrow> (fault + int) \<times> world" where
  "clear_hw_device_encryption_key w =
     cryptfs_hw_wipe_key (map_usage w CRYPTFS_HW_KM_USAGE_DISK_ENCRYPTION) w"

text \<open>
  \<open>hw_get_module_by_class\<close> returns 0 and the module found, or a return code other
  than 0.
\<close>

definition get_keymaster_version :: "world \<Rightarrow> int" where
  "get_keymaster_version w =
     (let rc = keystore_rc w in
      if rc \<noteq> 0 then rc else uint (keystore_module_api_version w))"

definition should_use_keymaster :: "world \<Rightarrow> int" where
  "should_use_keymaster w =
     (if get_keymaster_version w = KEYMASTER_MODULE_API_VERSION_0_3 then 0 else 1)"

subsection \<open>Vocabulary of the properties\<close>

text \<open>
  The three function pointers hold the entry points \<open>load_qseecom_library\<close> resolves
  them from.
\<close>

definition pointers_resolved :: "world \<Rightarrow> bool" where
  "pointers_resolved w =
     (qseecom_create_key w = Some ''QSEECom_create_key'' \<and>
      qseecom_update_key w = Some ''QSEECom_update_key_user_info'' \<and>
      qseecom_wipe_key w = Some ''QSEECom_wipe_key'')"

text \<open>The flag is 0, or it is 1 and all three pointers are resolved.\<close>

definition library_state_ok :: "world \<Rightarrow> bool" where
  "library_state_ok w =
     (loaded_library w = 0 \<or> (loaded_library w = 1 \<and> pointers_resolved w))"

text \<open>The three key operations the file exports, and the sentinel of each.\<close>

datatype key_op =
  Set_key "byte list option" "string option"
| Update_key "byte list option" "byte list option" "string option"
| Clear_key

fun run_op :: "key_op \<Rightarrow> world \<Rightarrow> (fault + int) \<times> world" where
  "run_op (Set_key passwd enc_mode) w = set_hw_device_encryption_key passwd enc_mode w"
| "run_op (Update_key oldpw newpw enc_mode) w =
     update_hw_device_encryption_key oldpw newpw enc_mode w"
| "run_op Clear_key w = clear_hw_device_encryption_key w"

fun sentinel :: "key_op \<Rightarrow> int" where
  "sentinel (Set_key passwd enc_mode) = CRYPTFS_HW_CREATE_KEY_FAILED"
| "sentinel (Update_key oldpw newpw enc_mode) = CRYPTFS_HW_UPDATE_KEY_FAILED"
| "sentinel Clear_key = CRYPTFS_HW_WIPE_KEY_FAILED"

text \<open>
  A key operation gets as far as its wrapper (\<open>cryptfs_hw_create_key\<close>,
  \<open>cryptfs_hw_update_key\<close>, \<open>cryptfs_hw_wipe_key\<close>) when nothing stops it before:
  set and update need the mode \<open>aes-xts\<close> and a buffer for each password they are
  given to build (the new password's first, then the old password's), wipe needs
  nothing.
\<close>

fun reaches_wrapper :: "key_op \<Rightarrow> world \<Rightarrow> bool" where
  "reaches_wrapper (Set_key passwd enc_mode) w =
     (enc_mode = Some ''aes-xts'' \<and> passwd \<noteq> None \<and> malloc_outcome w (mallocs w) \<noteq> None)"
| "reaches_wrapper (Update_key oldpw newpw enc_mode) w =
     (enc_mode = Some ''aes-xts'' \<and> newpw \<noteq> None \<and> malloc_outcome w (mallocs w) \<noteq> None \<and>
      oldpw \<noteq> None \<and> malloc_outcome w (mallocs w + 1) \<noteq> None)"
| "reaches_wrapper Clear_key w = True"

text \<open>
  The process starts with the static variables zero-initialised and nothing done yet.
  The states of a run: key operations in any order, and between them the platform may
  change in any way (properties, files, linker, allocator, TEE, keystore).
\<close>

definition program_start :: "world \<Rightarrow> bool" where
  "program_start w =
     (loaded_library w = 0 \<and> qseecom_create_key w = None \<and> qseecom_update_key w = None \<and>
      qseecom_wipe_key w = None \<and> heap w = [] \<and> mallocs w = 0 \<and> polls w = 0 \<and>
      dl_calls w = [] \<and> tee_calls w = [])"

inductive reachable :: "world \<Rightarrow> bool" where
  start: "program_start w \<Longrightarrow> reachable w"
| operation: "reachable w \<Longrightarrow> reachable (snd (run_op op w))"
| platform:
    "reachable w \<Longrightarrow>
     reachable (w\<lparr>malloc_outcome := mo, sys_keymaster_loaded := kl, ro_boot_bootdevice := bd,
                  path_exists := pe, dlopen_ok := dlo, dlsym_ok := dls, tee_status := ts,
                  keystore_rc := rc, keystore_module_api_version := ver\<rparr>)"

text \<open>
  Every block allocated after the state \<open>w\<close> holds only zero bytes in the state \<open>w'\<close>.
\<close>

definition zeroed_since :: "world \<Rightarrow> world \<Rightarrow> bool" where
  "zeroed_since w w' =
     list_all (\<lambda>b. list_all (\<lambda>x. x = 0) (bytes b)) (drop (length (heap w)) (heap w'))"

text \<open>
  A device of the kind this tree targets, just booted: eMMC storage with the inline
  crypto device node, no metadata partition, the TEE listeners up, the TEE library
  present with its three entry points, a TEE that accepts every call, and a keystore
  module of API version 0.3. The allocator succeeds and hands out blocks filled with
  the byte A5.
\<close>

definition booted_device :: world where
  "booted_device =
     \<lparr>loaded_library = 0, qseecom_create_key = None, qseecom_update_key = None,
      qseecom_wipe_key = None, heap = [], mallocs = 0, polls = 0, dl_calls = [],
      tee_calls = [],
      malloc_outcome = (\<lambda>k. Some (\<lambda>i. 0xA5)),
      sys_keymaster_loaded = (\<lambda>k. Some ''true''),
      ro_boot_bootdevice = Some ''7824900.sdhci'',
      path_exists = (\<lambda>p. p = ''/dev/icesdcc''),
      dlopen_ok = (\<lambda>n. n = QSEECOM_LIBRARY_NAME),
      dlsym_ok = (\<lambda>s. True),
      tee_status = (\<lambda>h c. 0),
      keystore_rc = 0,
      keystore_module_api_version = 3\<rparr>"

text \<open>The same device when the TEE listeners never come up.\<close>

definition stalled_device :: world where
  "stalled_device = booted_device\<lparr>sys_keymaster_loaded := (\<lambda>k. None)\<rparr>"

section \<open>Properties\<close>

subsection \<open>The C library functions\<close>

lemma strstr_sublist: "(strstr h n \<noteq> None) = sublist n h"
  by (induction h) (auto simp: sublist_Cons_right)

lemma secure_memset_loop_fill: "p + n \<le> length v \<Longrightarrow>
  secure_memset_loop v p c n = take p v @ replicate n c @ drop (p + n) v"
proof (induction n arbitrary: v p)
  case 0
  then show ?case by simp
next
  case (Suc n)
  then show ?case
    by (simp add: upd_conv_take_nth_drop take_Suc_conv_app_nth replicate_app_Cons_same add.commute)
qed

text \<open>A poll sees the TEE ready exactly when the property holds the string \<open>true\<close>.\<close>

lemma ready_iff:
  "(strncmp (snd (property_get st '''')) ''true'' PROPERTY_VALUE_MAX = 0) = (st = Some ''true'')"
proof -
  have "take 92 v = ''true'' \<longleftrightarrow> v = ''true''" for v :: string
  proof
    assume h: "take 92 v = ''true''"
    then have "length (take 92 v) = 4" by simp
    then have "length v = 4" by (simp add: min_def split: if_splits)
    with h show "v = ''true''" by simp
  qed simp
  then show ?thesis
    by (auto simp: strncmp_def property_get_def split: option.splits)
qed

text \<open>The polling loop changes the number of polls and nothing else.\<close>

lemma loop_up_frame: "\<exists>k. snd (is_qseecom_up_loop i w) = w\<lparr>polls := polls w + k\<rparr>"
proof (induction i w rule: is_qseecom_up_loop.induct)
  case (1 i w)
  show ?case
  proof (cases "i < CRYPTFS_HW_UP_CHECK_COUNT")
    case False
    then have "snd (is_qseecom_up_loop i w) = w\<lparr>polls := polls w + 0\<rparr>"
      by (subst is_qseecom_up_loop.simps) simp
    then show ?thesis by blast
  next
    case True
    show ?thesis
    proof (cases "sys_keymaster_loaded w (polls w) = Some ''true''")
      case t: True
      with True have "snd (is_qseecom_up_loop i w) = w\<lparr>polls := polls w + 1\<rparr>"
        by (subst is_qseecom_up_loop.simps) (simp add: ready_iff)
      then show ?thesis by blast
    next
      case f: False
      with True 1 obtain k where
        "snd (is_qseecom_up_loop (i + 1) (w\<lparr>polls := polls w + 1\<rparr>)) = w\<lparr>polls := polls w + 1 + k\<rparr>"
        by (auto simp: ready_iff)
      with True f have "snd (is_qseecom_up_loop i w) = w\<lparr>polls := polls w + (1 + k)\<rparr>"
        by (subst is_qseecom_up_loop.simps) (simp add: ready_iff add.assoc)
      then show ?thesis by blast
    qed
  qed
qed

text \<open>When no poll sees the TEE ready, the loop polls to its bound and returns 0.\<close>

lemma loop_never_ready:
  "i \<le> CRYPTFS_HW_UP_CHECK_COUNT \<Longrightarrow>
   \<forall>k < CRYPTFS_HW_UP_CHECK_COUNT - i. sys_keymaster_loaded w (polls w + k) \<noteq> Some ''true'' \<Longrightarrow>
   is_qseecom_up_loop i w = (0, w\<lparr>polls := polls w + (CRYPTFS_HW_UP_CHECK_COUNT - i)\<rparr>)"
proof (induction i w rule: is_qseecom_up_loop.induct)
  case (1 i w)
  show ?case
  proof (cases "i < CRYPTFS_HW_UP_CHECK_COUNT")
    case False
    with 1(2) have "i = CRYPTFS_HW_UP_CHECK_COUNT" by simp
    then show ?thesis by (subst is_qseecom_up_loop.simps) simp
  next
    case True
    from 1(3) True have nr: "sys_keymaster_loaded w (polls w) \<noteq> Some ''true''"
      by (metis add.right_neutral zero_less_diff)
    have later: "\<forall>k < CRYPTFS_HW_UP_CHECK_COUNT - (i + 1).
        sys_keymaster_loaded (w\<lparr>polls := polls w + 1\<rparr>) (polls (w\<lparr>polls := polls w + 1\<rparr>) + k) \<noteq> Some ''true''"
    proof (intro allI impI)
      fix k assume "k < CRYPTFS_HW_UP_CHECK_COUNT - (i + 1)"
      then have "Suc k < CRYPTFS_HW_UP_CHECK_COUNT - i" by simp
      with 1(3) have "sys_keymaster_loaded w (polls w + Suc k) \<noteq> Some ''true''" by blast
      then show "sys_keymaster_loaded (w\<lparr>polls := polls w + 1\<rparr>) (polls (w\<lparr>polls := polls w + 1\<rparr>) + k) \<noteq> Some ''true''"
        by simp
    qed
    from True have le: "i + 1 \<le> CRYPTFS_HW_UP_CHECK_COUNT" by simp
    have "is_qseecom_up_loop (i + 1) (w\<lparr>polls := polls w + 1\<rparr>) =
        (0, w\<lparr>polls := polls w + 1 + (CRYPTFS_HW_UP_CHECK_COUNT - (i + 1))\<rparr>)"
      using 1(1)[OF True _ le later] nr by (simp add: ready_iff)
    moreover have "polls w + 1 + (CRYPTFS_HW_UP_CHECK_COUNT - (i + 1)) = polls w + (CRYPTFS_HW_UP_CHECK_COUNT - i)"
      using True by simp
    ultimately show ?thesis
      using True nr by (subst is_qseecom_up_loop.simps) (simp add: ready_iff)
  qed
qed

subsection \<open>What each function leaves unchanged\<close>

lemma poke_fields:
  "loaded_library (poke p bs w) = loaded_library w"
  "qseecom_create_key (poke p bs w) = qseecom_create_key w"
  "qseecom_update_key (poke p bs w) = qseecom_update_key w"
  "qseecom_wipe_key (poke p bs w) = qseecom_wipe_key w"
  "mallocs (poke p bs w) = mallocs w"
  "polls (poke p bs w) = polls w"
  "dl_calls (poke p bs w) = dl_calls w"
  "tee_calls (poke p bs w) = tee_calls w"
  "malloc_outcome (poke p bs w) = malloc_outcome w"
  "sys_keymaster_loaded (poke p bs w) = sys_keymaster_loaded w"
  "ro_boot_bootdevice (poke p bs w) = ro_boot_bootdevice w"
  "path_exists (poke p bs w) = path_exists w"
  "dlopen_ok (poke p bs w) = dlopen_ok w"
  "dlsym_ok (poke p bs w) = dlsym_ok w"
  "tee_status (poke p bs w) = tee_status w"
  "length (heap (poke p bs w)) = length (heap w)"
  by (simp_all add: poke_def)

lemma secure_memset_fields:
  "loaded_library (secure_memset p c n w) = loaded_library w"
  "qseecom_create_key (secure_memset p c n w) = qseecom_create_key w"
  "qseecom_update_key (secure_memset p c n w) = qseecom_update_key w"
  "qseecom_wipe_key (secure_memset p c n w) = qseecom_wipe_key w"
  "mallocs (secure_memset p c n w) = mallocs w"
  "polls (secure_memset p c n w) = polls w"
  "dl_calls (secure_memset p c n w) = dl_calls w"
  "tee_calls (secure_memset p c n w) = tee_calls w"
  "malloc_outcome (secure_memset p c n w) = malloc_outcome w"
  "sys_keymaster_loaded (secure_memset p c n w) = sys_keymaster_loaded w"
  "ro_boot_bootdevice (secure_memset p c n w) = ro_boot_bootdevice w"
  "path_exists (secure_memset p c n w) = path_exists w"
  "dlopen_ok (secure_memset p c n w) = dlopen_ok w"
  "dlsym_ok (secure_memset p c n w) = dlsym_ok w"
  "tee_status (secure_memset p c n w) = tee_status w"
  "length (heap (secure_memset p c n w)) = length (heap w)"
  by (simp_all add: secure_memset_def poke_fields)

lemma free_fields:
  "loaded_library (free q w) = loaded_library w"
  "qseecom_create_key (free q w) = qseecom_create_key w"
  "qseecom_update_key (free q w) = qseecom_update_key w"
  "qseecom_wipe_key (free q w) = qseecom_wipe_key w"
  "mallocs (free q w) = mallocs w"
  "polls (free q w) = polls w"
  "dl_calls (free q w) = dl_calls w"
  "tee_calls (free q w) = tee_calls w"
  "malloc_outcome (free q w) = malloc_outcome w"
  "sys_keymaster_loaded (free q w) = sys_keymaster_loaded w"
  "ro_boot_bootdevice (free q w) = ro_boot_bootdevice w"
  "path_exists (free q w) = path_exists w"
  "dlopen_ok (free q w) = dlopen_ok w"
  "dlsym_ok (free q w) = dlsym_ok w"
  "tee_status (free q w) = tee_status w"
  "length (heap (free q w)) = length (heap w)"
  by (simp_all add: free_def split: option.splits)

lemma get_tmp_passwd_fields:
  "loaded_library (snd (get_tmp_passwd pw w)) = loaded_library w"
  "qseecom_create_key (snd (get_tmp_passwd pw w)) = qseecom_create_key w"
  "qseecom_update_key (snd (get_tmp_passwd pw w)) = qseecom_update_key w"
  "qseecom_wipe_key (snd (get_tmp_passwd pw w)) = qseecom_wipe_key w"
  "polls (snd (get_tmp_passwd pw w)) = polls w"
  "dl_calls (snd (get_tmp_passwd pw w)) = dl_calls w"
  "tee_calls (snd (get_tmp_passwd pw w)) = tee_calls w"
  "malloc_outcome (snd (get_tmp_passwd pw w)) = malloc_outcome w"
  "sys_keymaster_loaded (snd (get_tmp_passwd pw w)) = sys_keymaster_loaded w"
  "ro_boot_bootdevice (snd (get_tmp_passwd pw w)) = ro_boot_bootdevice w"
  "path_exists (snd (get_tmp_passwd pw w)) = path_exists w"
  "dlopen_ok (snd (get_tmp_passwd pw w)) = dlopen_ok w"
  "dlsym_ok (snd (get_tmp_passwd pw w)) = dlsym_ok w"
  "tee_status (snd (get_tmp_passwd pw w)) = tee_status w"
  by (simp_all add: get_tmp_passwd_def malloc_def Let_def poke_fields secure_memset_fields
      split: option.splits prod.splits)

lemma call_ptr_fields:
  "loaded_library (snd (call_ptr fp u ps w)) = loaded_library w"
  "qseecom_create_key (snd (call_ptr fp u ps w)) = qseecom_create_key w"
  "qseecom_update_key (snd (call_ptr fp u ps w)) = qseecom_update_key w"
  "qseecom_wipe_key (snd (call_ptr fp u ps w)) = qseecom_wipe_key w"
  "heap (snd (call_ptr fp u ps w)) = heap w"
  "mallocs (snd (call_ptr fp u ps w)) = mallocs w"
  "polls (snd (call_ptr fp u ps w)) = polls w"
  "dl_calls (snd (call_ptr fp u ps w)) = dl_calls w"
  "malloc_outcome (snd (call_ptr fp u ps w)) = malloc_outcome w"
  "sys_keymaster_loaded (snd (call_ptr fp u ps w)) = sys_keymaster_loaded w"
  "ro_boot_bootdevice (snd (call_ptr fp u ps w)) = ro_boot_bootdevice w"
  "path_exists (snd (call_ptr fp u ps w)) = path_exists w"
  "dlopen_ok (snd (call_ptr fp u ps w)) = dlopen_ok w"
  "dlsym_ok (snd (call_ptr fp u ps w)) = dlsym_ok w"
  "tee_status (snd (call_ptr fp u ps w)) = tee_status w"
  by (simp_all add: call_ptr_def Let_def split: option.splits)

lemma is_qseecom_up_frame: "\<exists>k. snd (is_qseecom_up w) = w\<lparr>polls := polls w + k\<rparr>"
  by (simp add: is_qseecom_up_def loop_up_frame)

lemma load_when_loaded:
  "loaded_library w \<noteq> 0 \<Longrightarrow> load_qseecom_library w = (loaded_library w, w)"
  by (simp add: load_qseecom_library_def)

lemma load_fields:
  "heap (snd (load_qseecom_library w)) = heap w"
  "mallocs (snd (load_qseecom_library w)) = mallocs w"
  "tee_calls (snd (load_qseecom_library w)) = tee_calls w"
  "malloc_outcome (snd (load_qseecom_library w)) = malloc_outcome w"
  "sys_keymaster_loaded (snd (load_qseecom_library w)) = sys_keymaster_loaded w"
  "ro_boot_bootdevice (snd (load_qseecom_library w)) = ro_boot_bootdevice w"
  "path_exists (snd (load_qseecom_library w)) = path_exists w"
  "dlopen_ok (snd (load_qseecom_library w)) = dlopen_ok w"
  "dlsym_ok (snd (load_qseecom_library w)) = dlsym_ok w"
  "tee_status (snd (load_qseecom_library w)) = tee_status w"
proof -
  obtain k where k: "snd (is_qseecom_up w) = w\<lparr>polls := polls w + k\<rparr>"
    using is_qseecom_up_frame by blast
  obtain up w1 where e: "is_qseecom_up w = (up, w1)" by (cases "is_qseecom_up w")
  with k have w1: "w1 = w\<lparr>polls := polls w + k\<rparr>" by simp
  show "heap (snd (load_qseecom_library w)) = heap w"
  "mallocs (snd (load_qseecom_library w)) = mallocs w"
  "tee_calls (snd (load_qseecom_library w)) = tee_calls w"
  "malloc_outcome (snd (load_qseecom_library w)) = malloc_outcome w"
  "sys_keymaster_loaded (snd (load_qseecom_library w)) = sys_keymaster_loaded w"
  "ro_boot_bootdevice (snd (load_qseecom_library w)) = ro_boot_bootdevice w"
  "path_exists (snd (load_qseecom_library w)) = path_exists w"
  "dlopen_ok (snd (load_qseecom_library w)) = dlopen_ok w"
  "dlsym_ok (snd (load_qseecom_library w)) = dlsym_ok w"
  "tee_status (snd (load_qseecom_library w)) = tee_status w"
    by (simp_all add: load_qseecom_library_def e w1 Let_def dl_log_def)
qed

lemma load_result:
  "fst (load_qseecom_library w) = loaded_library (snd (load_qseecom_library w))"
proof -
  obtain k where k: "snd (is_qseecom_up w) = w\<lparr>polls := polls w + k\<rparr>"
    using is_qseecom_up_frame by blast
  obtain up w1 where e: "is_qseecom_up w = (up, w1)" by (cases "is_qseecom_up w")
  with k have w1: "w1 = w\<lparr>polls := polls w + k\<rparr>" by simp
  show ?thesis
    by (simp add: load_qseecom_library_def e w1 Let_def dl_log_def)
qed

lemma load_keeps_ok:
  "library_state_ok w \<Longrightarrow> library_state_ok (snd (load_qseecom_library w))"
proof -
  assume ok: "library_state_ok w"
  obtain k where k: "snd (is_qseecom_up w) = w\<lparr>polls := polls w + k\<rparr>"
    using is_qseecom_up_frame by blast
  obtain up w1 where e: "is_qseecom_up w = (up, w1)" by (cases "is_qseecom_up w")
  with k have w1: "w1 = w\<lparr>polls := polls w + k\<rparr>" by simp
  show ?thesis
  proof (cases "loaded_library w = 0")
    case False
    with ok show ?thesis by (simp add: load_when_loaded)
  next
    case True
    then show ?thesis
      by (simp add: load_qseecom_library_def e w1 Let_def dl_log_def library_state_ok_def
          pointers_resolved_def dlsym_def dlerror_def)
  qed
qed

subsection \<open>The loader\<close>

lemma load_success_shape:
  assumes "loaded_library w = 0" and "loaded_library (snd (load_qseecom_library w)) \<noteq> 0"
  shows "fst (is_qseecom_up w) \<noteq> 0 \<and> dlopen_ok w QSEECOM_LIBRARY_NAME \<and>
         dlsym_ok w ''QSEECom_create_key'' \<and> dlsym_ok w ''QSEECom_update_key_user_info'' \<and>
         dlsym_ok w ''QSEECom_wipe_key'' \<and>
         load_qseecom_library w =
           (1, (snd (is_qseecom_up w))
                 \<lparr>loaded_library := 1,
                  qseecom_create_key := Some ''QSEECom_create_key'',
                  qseecom_update_key := Some ''QSEECom_update_key_user_info'',
                  qseecom_wipe_key := Some ''QSEECom_wipe_key'',
                  dl_calls := dl_calls w @ [Dlopen QSEECOM_LIBRARY_NAME, Dlsym ''QSEECom_create_key'',
                     Dlsym ''QSEECom_update_key_user_info'', Dlsym ''QSEECom_wipe_key'']\<rparr>)"
proof -
  obtain k where k: "snd (is_qseecom_up w) = w\<lparr>polls := polls w + k\<rparr>"
    using is_qseecom_up_frame by blast
  obtain up w1 where e: "is_qseecom_up w = (up, w1)" by (cases "is_qseecom_up w")
  with k have w1: "w1 = w\<lparr>polls := polls w + k\<rparr>" by simp
  from assms show ?thesis
    by (simp add: load_qseecom_library_def e w1 Let_def dl_log_def dlsym_def dlerror_def
        split: if_splits)
qed

lemma load_failure:
  assumes "loaded_library w = 0"
    and "fst (is_qseecom_up w) = 0 \<or> \<not> dlopen_ok w QSEECOM_LIBRARY_NAME \<or>
         \<not> dlsym_ok w ''QSEECom_create_key'' \<or> \<not> dlsym_ok w ''QSEECom_update_key_user_info'' \<or>
         \<not> dlsym_ok w ''QSEECom_wipe_key''"
  shows "fst (load_qseecom_library w) = 0"
  using assms load_success_shape[of w] load_result[of w] by auto

lemma load_monotone:
  "loaded_library w \<noteq> 0 \<Longrightarrow> loaded_library (snd (load_qseecom_library w)) = loaded_library w"
  by (simp add: load_when_loaded)

lemma create_fields:
  "loaded_library (snd (cryptfs_hw_create_key u h w)) = loaded_library (snd (load_qseecom_library w))"
  "qseecom_create_key (snd (cryptfs_hw_create_key u h w)) = qseecom_create_key (snd (load_qseecom_library w))"
  "qseecom_update_key (snd (cryptfs_hw_create_key u h w)) = qseecom_update_key (snd (load_qseecom_library w))"
  "qseecom_wipe_key (snd (cryptfs_hw_create_key u h w)) = qseecom_wipe_key (snd (load_qseecom_library w))"
  "polls (snd (cryptfs_hw_create_key u h w)) = polls (snd (load_qseecom_library w))"
  "dl_calls (snd (cryptfs_hw_create_key u h w)) = dl_calls (snd (load_qseecom_library w))"
  "heap (snd (cryptfs_hw_create_key u h w)) = heap w"
  "mallocs (snd (cryptfs_hw_create_key u h w)) = mallocs w"
  "malloc_outcome (snd (cryptfs_hw_create_key u h w)) = malloc_outcome w"
  "sys_keymaster_loaded (snd (cryptfs_hw_create_key u h w)) = sys_keymaster_loaded w"
  "ro_boot_bootdevice (snd (cryptfs_hw_create_key u h w)) = ro_boot_bootdevice w"
  "path_exists (snd (cryptfs_hw_create_key u h w)) = path_exists w"
  "dlopen_ok (snd (cryptfs_hw_create_key u h w)) = dlopen_ok w"
  "dlsym_ok (snd (cryptfs_hw_create_key u h w)) = dlsym_ok w"
  "tee_status (snd (cryptfs_hw_create_key u h w)) = tee_status w"
  by (simp_all add: cryptfs_hw_create_key_def call_ptr_fields load_fields split: prod.splits)
     (metis snd_conv load_fields)+

subsection \<open>The flag and the function pointers\<close>

lemma create_form:
  "cryptfs_hw_create_key u h w =
     (let w1 = snd (load_qseecom_library w) in
      if loaded_library w1 \<noteq> 0 then call_ptr (qseecom_create_key w1) u [h] w1
      else (Inr CRYPTFS_HW_CREATE_KEY_FAILED, w1))"
  using load_result[of w]
  by (auto simp: cryptfs_hw_create_key_def Let_def split: prod.splits)

lemma update_form:
  "cryptfs_hw_update_key u c h w =
     (let w1 = snd (load_qseecom_library w) in
      if loaded_library w1 \<noteq> 0 then call_ptr (qseecom_update_key w1) u [c, h] w1
      else (Inr CRYPTFS_HW_UPDATE_KEY_FAILED, w1))"
  using load_result[of w]
  by (auto simp: cryptfs_hw_update_key_def Let_def split: prod.splits)

lemma wipe_form:
  "cryptfs_hw_wipe_key u w =
     (let w1 = snd (load_qseecom_library w) in
      if loaded_library w1 \<noteq> 0 then call_ptr (qseecom_wipe_key w1) u [] w1
      else (Inr CRYPTFS_HW_WIPE_KEY_FAILED, w1))"
  using load_result[of w]
  by (auto simp: cryptfs_hw_wipe_key_def Let_def split: prod.splits)

lemma call_ptr_keeps_ok: "library_state_ok w \<Longrightarrow> library_state_ok (snd (call_ptr fp u ps w))"
  by (simp add: library_state_ok_def pointers_resolved_def call_ptr_fields)

lemma create_keeps_ok: "library_state_ok w \<Longrightarrow> library_state_ok (snd (cryptfs_hw_create_key u h w))"
  by (simp add: create_form Let_def call_ptr_keeps_ok load_keeps_ok)

lemma update_keeps_ok: "library_state_ok w \<Longrightarrow> library_state_ok (snd (cryptfs_hw_update_key u c h w))"
  by (simp add: update_form Let_def call_ptr_keeps_ok load_keeps_ok)

lemma wipe_keeps_ok: "library_state_ok w \<Longrightarrow> library_state_ok (snd (cryptfs_hw_wipe_key u w))"
  by (simp add: wipe_form Let_def call_ptr_keeps_ok load_keeps_ok)

text \<open>
  A property of the state that the five steps of \<open>set_key\<close> keep is kept by
  \<open>set_key\<close>.
\<close>

lemma set_key_preserves:
  assumes g: "\<And>p w. Q w \<Longrightarrow> Q (snd (get_tmp_passwd p w))"
    and u: "\<And>u a b w. Q w \<Longrightarrow> Q (snd (cryptfs_hw_update_key u a b w))"
    and c: "\<And>u a w. Q w \<Longrightarrow> Q (snd (cryptfs_hw_create_key u a w))"
    and m: "\<And>p n w. Q w \<Longrightarrow> Q (secure_memset p 0 n w)"
    and f: "\<And>p w. Q w \<Longrightarrow> Q (free p w)"
    and q: "Q w"
  shows "Q (snd (set_key cur pw mode opn w))"
proof -
  have g': "\<And>p w r w'. get_tmp_passwd p w = (r, w') \<Longrightarrow> Q w \<Longrightarrow> Q w'"
    using g by (metis snd_conv)
  have u': "\<And>u a b w r w'. cryptfs_hw_update_key u a b w = (r, w') \<Longrightarrow> Q w \<Longrightarrow> Q w'"
    using u by (metis snd_conv)
  have c': "\<And>u a w r w'. cryptfs_hw_create_key u a w = (r, w') \<Longrightarrow> Q w \<Longrightarrow> Q w'"
    using c by (metis snd_conv)
  obtain tp w1 where 1: "get_tmp_passwd pw w = (tp, w1)" by (cases "get_tmp_passwd pw w")
  obtain tc w2 where 2: "get_tmp_passwd cur w1 = (tc, w2)" by (cases "get_tmp_passwd cur w1")
  have q2: "Q w2" using g'[OF 2 g'[OF 1 q]] .
  show ?thesis
    using q q2
    by (auto simp: set_key_def 1 2 split: option.splits sum.splits prod.splits if_splits
        intro!: f m dest: u' c')
qed

lemma set_key_keeps_ok:
  "library_state_ok w \<Longrightarrow> library_state_ok (snd (set_key cur pw mode opn w))"
proof (rule set_key_preserves [where Q = library_state_ok])
  show "library_state_ok (snd (get_tmp_passwd p v))" if "library_state_ok v" for p v
    using that by (simp add: library_state_ok_def pointers_resolved_def get_tmp_passwd_fields)
  show "library_state_ok (secure_memset p 0 n v)" if "library_state_ok v" for p n v
    using that by (simp add: library_state_ok_def pointers_resolved_def secure_memset_fields)
  show "library_state_ok (free p v)" if "library_state_ok v" for p v
    using that by (simp add: library_state_ok_def pointers_resolved_def free_fields)
qed (simp_all add: create_keeps_ok update_keeps_ok)

lemma run_op_keeps_ok: "library_state_ok w \<Longrightarrow> library_state_ok (snd (run_op op w))"
  by (cases op)
     (simp_all add: set_hw_device_encryption_key_def update_hw_device_encryption_key_def
        clear_hw_device_encryption_key_def set_key_keeps_ok wipe_keeps_ok)

lemma reachable_ok: "reachable w \<Longrightarrow> library_state_ok w"
proof (induction rule: reachable.induct)
  case (start w)
  then show ?case by (simp add: program_start_def library_state_ok_def)
next
  case (operation w op)
  then show ?case by (simp add: run_op_keeps_ok)
next
  case (platform w mo kl bd pe dlo dls ts rc ver)
  then show ?case by (simp add: library_state_ok_def pointers_resolved_def)
qed

subsection \<open>Operations with the library loaded, and with the library missing\<close>

lemma set_key_loaded_skips:
  assumes "loaded_library w \<noteq> 0"
  shows "loaded_library (snd (set_key cur pw mode opn w)) = loaded_library w \<and>
         polls (snd (set_key cur pw mode opn w)) = polls w \<and>
         dl_calls (snd (set_key cur pw mode opn w)) = dl_calls w"
proof (rule set_key_preserves
    [where Q = "\<lambda>v. loaded_library v = loaded_library w \<and> polls v = polls w \<and> dl_calls v = dl_calls w"])
  show "loaded_library (snd (cryptfs_hw_update_key u a b v)) = loaded_library w \<and>
        polls (snd (cryptfs_hw_update_key u a b v)) = polls w \<and>
        dl_calls (snd (cryptfs_hw_update_key u a b v)) = dl_calls w"
    if "loaded_library v = loaded_library w \<and> polls v = polls w \<and> dl_calls v = dl_calls w"
    for u a b v
    using that assms by (simp add: update_form Let_def load_when_loaded call_ptr_fields)
  show "loaded_library (snd (cryptfs_hw_create_key u a v)) = loaded_library w \<and>
        polls (snd (cryptfs_hw_create_key u a v)) = polls w \<and>
        dl_calls (snd (cryptfs_hw_create_key u a v)) = dl_calls w"
    if "loaded_library v = loaded_library w \<and> polls v = polls w \<and> dl_calls v = dl_calls w"
    for u a v
    using that assms by (simp add: create_form Let_def load_when_loaded call_ptr_fields)
qed (simp_all add: get_tmp_passwd_fields secure_memset_fields free_fields)

lemma run_op_loaded_skips:
  assumes "loaded_library w \<noteq> 0"
  shows "loaded_library (snd (run_op op w)) = loaded_library w \<and>
         polls (snd (run_op op w)) = polls w \<and> dl_calls (snd (run_op op w)) = dl_calls w"
proof (cases op)
  case Clear_key
  with assms show ?thesis
    by (simp add: clear_hw_device_encryption_key_def wipe_form Let_def load_when_loaded
        call_ptr_fields)
qed (simp_all add: set_hw_device_encryption_key_def update_hw_device_encryption_key_def
      set_key_loaded_skips [OF assms])

lemma load_flag_zero_before:
  "loaded_library (snd (load_qseecom_library w)) = 0 \<Longrightarrow> loaded_library w = 0"
  using load_when_loaded[of w] by (cases "loaded_library w = 0") simp_all

lemma call_ptr_flag:
  "call_ptr fp u ps w = (r, w') \<Longrightarrow> loaded_library w' = loaded_library w"
  using call_ptr_fields(1)[of fp u ps w] by simp

lemma create_cases:
  assumes "cryptfs_hw_create_key u h w = (r, w')"
  shows "(loaded_library w' = 0 \<and> r = Inr CRYPTFS_HW_CREATE_KEY_FAILED \<and> tee_calls w' = tee_calls w
            \<and> loaded_library w = 0)
         \<or> loaded_library w' \<noteq> 0"
  using assms load_flag_zero_before[of w]
  by (auto simp: create_form Let_def load_fields split: if_splits dest: call_ptr_flag)

lemma update_cases:
  assumes "cryptfs_hw_update_key u c h w = (r, w')"
  shows "(loaded_library w' = 0 \<and> r = Inr CRYPTFS_HW_UPDATE_KEY_FAILED \<and> tee_calls w' = tee_calls w
            \<and> loaded_library w = 0)
         \<or> loaded_library w' \<noteq> 0"
  using assms load_flag_zero_before[of w]
  by (auto simp: update_form Let_def load_fields split: if_splits dest: call_ptr_flag)

lemma wipe_cases:
  assumes "cryptfs_hw_wipe_key u w = (r, w')"
  shows "(loaded_library w' = 0 \<and> r = Inr CRYPTFS_HW_WIPE_KEY_FAILED \<and> tee_calls w' = tee_calls w
            \<and> loaded_library w = 0)
         \<or> loaded_library w' \<noteq> 0"
  using assms load_flag_zero_before[of w]
  by (auto simp: wipe_form Let_def load_fields split: if_splits dest: call_ptr_flag)


lemma create_unloaded:
  "cryptfs_hw_create_key u h w = (r, w') \<Longrightarrow> loaded_library w' = 0 \<Longrightarrow>
   r = Inr CRYPTFS_HW_CREATE_KEY_FAILED \<and> tee_calls w' = tee_calls w"
  using create_cases by blast

lemma update_unloaded:
  "cryptfs_hw_update_key u c h w = (r, w') \<Longrightarrow> loaded_library w' = 0 \<Longrightarrow>
   r = Inr CRYPTFS_HW_UPDATE_KEY_FAILED \<and> tee_calls w' = tee_calls w"
  using update_cases by blast

lemma wipe_unloaded:
  "cryptfs_hw_wipe_key u w = (r, w') \<Longrightarrow> loaded_library w' = 0 \<Longrightarrow>
   r = Inr CRYPTFS_HW_WIPE_KEY_FAILED \<and> tee_calls w' = tee_calls w"
  using wipe_cases by blast

text \<open>The paths through \<open>set_key\<close>.\<close>

lemma set_key_disabled:
  "is_hw_disk_encryption mode = 0 \<Longrightarrow> set_key cur pw mode opn w = (Inr (- 1), w)"
  by (simp add: set_key_def)

lemma set_key_no_new_buffer:
  "is_hw_disk_encryption mode \<noteq> 0 \<Longrightarrow> get_tmp_passwd pw w = (None, w1) \<Longrightarrow>
   set_key cur pw mode opn w = (Inr (- 1), snd (get_tmp_passwd cur w1))"
  by (simp add: set_key_def split: prod.splits)

lemma set_key_create_path:
  "is_hw_disk_encryption mode \<noteq> 0 \<Longrightarrow> get_tmp_passwd pw w = (Some p, w1) \<Longrightarrow>
   get_tmp_passwd cur w1 = (tc, w2) \<Longrightarrow>
   cryptfs_hw_create_key (map_usage w2 CRYPTFS_HW_KM_USAGE_DISK_ENCRYPTION) p w2 = (r, w4) \<Longrightarrow>
   set_key cur pw mode SET_HW_DISK_ENC_KEY w =
     (case r of Inl f \<Rightarrow> (Inl f, w4)
      | Inr e \<Rightarrow> (Inr e, free tc (free (Some p) (secure_memset p 0 MAX_PASSWORD_LEN w4))))"
  by (simp add: set_key_def split: sum.splits)

lemma set_key_update_skipped:
  "is_hw_disk_encryption mode \<noteq> 0 \<Longrightarrow> get_tmp_passwd pw w = (Some p, w1) \<Longrightarrow>
   get_tmp_passwd cur w1 = (None, w2) \<Longrightarrow>
   set_key cur pw mode UPDATE_HW_DISK_ENC_KEY w =
     (Inr (- 1), free None (free (Some p) (secure_memset p 0 MAX_PASSWORD_LEN w2)))"
  by (simp add: set_key_def)

lemma set_key_update_path:
  "is_hw_disk_encryption mode \<noteq> 0 \<Longrightarrow> get_tmp_passwd pw w = (Some p, w1) \<Longrightarrow>
   get_tmp_passwd cur w1 = (Some c, w2) \<Longrightarrow>
   cryptfs_hw_update_key (map_usage w2 CRYPTFS_HW_KM_USAGE_DISK_ENCRYPTION) c p w2 = (r, w3) \<Longrightarrow>
   set_key cur pw mode UPDATE_HW_DISK_ENC_KEY w =
     (case r of Inl f \<Rightarrow> (Inl f, w3)
      | Inr e \<Rightarrow>
          (Inr e, free (Some c) (free (Some p)
             (secure_memset p 0 MAX_PASSWORD_LEN (secure_memset c 0 MAX_PASSWORD_LEN w3)))))"
  by (simp add: set_key_def split: sum.splits)

lemma get_tmp_passwd_tee:
  "get_tmp_passwd pw w = (r, w') \<Longrightarrow> tee_calls w' = tee_calls w \<and> loaded_library w' = loaded_library w"
  using get_tmp_passwd_fields(1,7)[of pw w] by simp

lemma set_unloaded:
  assumes z: "loaded_library (snd (set_hw_device_encryption_key pw mode w)) = 0"
  shows "tee_calls (snd (set_hw_device_encryption_key pw mode w)) = tee_calls w \<and>
         (fst (set_hw_device_encryption_key pw mode w) = Inr (- 1) \<or>
          fst (set_hw_device_encryption_key pw mode w) = Inr CRYPTFS_HW_CREATE_KEY_FAILED)"
proof (cases "is_hw_disk_encryption mode = 0")
  case True
  then show ?thesis by (simp add: set_hw_device_encryption_key_def set_key_disabled)
next
  case hw: False
  obtain tp w1 where 1: "get_tmp_passwd pw w = (tp, w1)" by (cases "get_tmp_passwd pw w")
  have 2: "get_tmp_passwd None w1 = (None, w1)" by (simp add: get_tmp_passwd_def)
  note t1 = get_tmp_passwd_tee [OF 1]
  show ?thesis
  proof (cases tp)
    case None
    with hw 1 2 t1 show ?thesis
      by (simp add: set_hw_device_encryption_key_def set_key_no_new_buffer)
  next
    case (Some p)
    obtain r w4 where 3:
      "cryptfs_hw_create_key (map_usage w1 CRYPTFS_HW_KM_USAGE_DISK_ENCRYPTION) p w1 = (r, w4)"
      by (cases "cryptfs_hw_create_key (map_usage w1 CRYPTFS_HW_KM_USAGE_DISK_ENCRYPTION) p w1")
    note path = set_key_create_path [OF hw 1 [unfolded Some] 2 3]
    from z path have "loaded_library w4 = 0"
      by (cases r) (simp_all add: set_hw_device_encryption_key_def secure_memset_fields free_fields)
    from create_unloaded [OF 3 this] path t1 show ?thesis
      by (simp add: set_hw_device_encryption_key_def secure_memset_fields free_fields)
  qed
qed

lemma update_unloaded_op:
  assumes z: "loaded_library (snd (update_hw_device_encryption_key old pw mode w)) = 0"
  shows "tee_calls (snd (update_hw_device_encryption_key old pw mode w)) = tee_calls w \<and>
         (fst (update_hw_device_encryption_key old pw mode w) = Inr (- 1) \<or>
          fst (update_hw_device_encryption_key old pw mode w) = Inr CRYPTFS_HW_UPDATE_KEY_FAILED)"
proof (cases "is_hw_disk_encryption mode = 0")
  case True
  then show ?thesis by (simp add: update_hw_device_encryption_key_def set_key_disabled)
next
  case hw: False
  obtain tp w1 where 1: "get_tmp_passwd pw w = (tp, w1)" by (cases "get_tmp_passwd pw w")
  obtain tc w2 where 2: "get_tmp_passwd old w1 = (tc, w2)" by (cases "get_tmp_passwd old w1")
  note t1 = get_tmp_passwd_tee [OF 1]
  note t2 = get_tmp_passwd_tee [OF 2]
  show ?thesis
  proof (cases tp)
    case None
    with hw 1 2 t1 t2 show ?thesis
      by (simp add: update_hw_device_encryption_key_def set_key_no_new_buffer)
  next
    case p: (Some p)
    show ?thesis
    proof (cases tc)
      case None
      with hw 1 2 t1 t2 p show ?thesis
        by (simp add: update_hw_device_encryption_key_def set_key_update_skipped
            secure_memset_fields free_fields)
    next
      case (Some c)
      obtain r w3 where 3:
        "cryptfs_hw_update_key (map_usage w2 CRYPTFS_HW_KM_USAGE_DISK_ENCRYPTION) c p w2 = (r, w3)"
        by (cases "cryptfs_hw_update_key (map_usage w2 CRYPTFS_HW_KM_USAGE_DISK_ENCRYPTION) c p w2")
      note path = set_key_update_path [OF hw 1 [unfolded p] 2 [unfolded Some] 3]
      from z path have "loaded_library w3 = 0"
        by (cases r)
           (simp_all add: update_hw_device_encryption_key_def secure_memset_fields free_fields)
      from update_unloaded [OF 3 this] path t1 t2 show ?thesis
        by (simp add: update_hw_device_encryption_key_def secure_memset_fields free_fields)
    qed
  qed
qed

lemma clear_unloaded:
  assumes z: "loaded_library (snd (clear_hw_device_encryption_key w)) = 0"
  shows "tee_calls (snd (clear_hw_device_encryption_key w)) = tee_calls w \<and>
         fst (clear_hw_device_encryption_key w) = Inr CRYPTFS_HW_WIPE_KEY_FAILED"
proof -
  obtain r w' where 1: "clear_hw_device_encryption_key w = (r, w')"
    by (cases "clear_hw_device_encryption_key w")
  with z wipe_unloaded [of "map_usage w CRYPTFS_HW_KM_USAGE_DISK_ENCRYPTION" w r w']
  show ?thesis by (simp add: clear_hw_device_encryption_key_def)
qed

lemma run_op_unloaded:
  assumes "loaded_library (snd (run_op op w)) = 0"
  shows "tee_calls (snd (run_op op w)) = tee_calls w \<and>
         (fst (run_op op w) = Inr (- 1) \<or> fst (run_op op w) = Inr (sentinel op))"
  using assms set_unloaded update_unloaded_op clear_unloaded by (cases op) simp_all

subsection \<open>Password buffers and calls through the pointers\<close>

lemma get_tmp_passwd_null: "get_tmp_passwd None w = (None, w)"
  by (simp add: get_tmp_passwd_def)

lemma get_tmp_passwd_alloc_failed:
  "malloc_outcome w (mallocs w) = None \<Longrightarrow>
   get_tmp_passwd (Some s) w = (None, w\<lparr>mallocs := mallocs w + 1\<rparr>)"
  by (simp add: get_tmp_passwd_def malloc_def)

lemma get_tmp_passwd_buffer:
  assumes "malloc_outcome w (mallocs w) = Some g"
  shows "get_tmp_passwd (Some s) w =
     (Some (length (heap w)),
      w\<lparr>mallocs := mallocs w + 1,
        heap := heap w @ [\<lparr>bytes = take MAX_PASSWORD_LEN s @ replicate (MAX_PASSWORD_LEN - length s) 0,
                           released = False\<rparr>]\<rparr>)"
proof -
  have fill: "secure_memset_loop (map g [0..<MAX_PASSWORD_LEN]) 0 0 MAX_PASSWORD_LEN
      = replicate MAX_PASSWORD_LEN 0"
    by (subst secure_memset_loop_fill) simp_all
  have len: "min (length s) MAX_PASSWORD_LEN \<le> MAX_PASSWORD_LEN" by simp
  have cp: "take (min (length s) MAX_PASSWORD_LEN) s @
        drop (min (length s) MAX_PASSWORD_LEN) (replicate MAX_PASSWORD_LEN (0::byte))
      = take MAX_PASSWORD_LEN s @ replicate (MAX_PASSWORD_LEN - length s) 0"
    by (cases "length s \<le> MAX_PASSWORD_LEN") (simp_all add: min_def)
  have cp1: "take (min (length s) MAX_PASSWORD_LEN) s = take MAX_PASSWORD_LEN s"
    by (simp add: min_def)
  have cp2: "MAX_PASSWORD_LEN - min (length s) MAX_PASSWORD_LEN = MAX_PASSWORD_LEN - length s"
    by (simp add: min_def)
  from assms show ?thesis
    unfolding get_tmp_passwd_def malloc_def secure_memset_def peek_def poke_def memcpy_def
      strnlen_def Let_def
    by (simp add: fill cp1 cp2)
qed

lemma call_ptr_resolved:
  "call_ptr (Some f) u ps w =
     (Inr (tee_status w (tee_calls w) (Tee_call f u (map (peek w) ps))),
      w\<lparr>tee_calls := tee_calls w @ [Tee_call f u (map (peek w) ps)]\<rparr>)"
  by (simp add: call_ptr_def Let_def)

lemma load_resolves:
  "library_state_ok w \<Longrightarrow> loaded_library (snd (load_qseecom_library w)) \<noteq> 0 \<Longrightarrow>
   pointers_resolved (snd (load_qseecom_library w))"
  using load_keeps_ok [of w] by (auto simp: library_state_ok_def)

lemma create_no_fault:
  "library_state_ok w \<Longrightarrow> \<exists>e. fst (cryptfs_hw_create_key u h w) = Inr e"
  using load_resolves [of w]
  by (auto simp: create_form Let_def pointers_resolved_def call_ptr_resolved)

lemma update_no_fault:
  "library_state_ok w \<Longrightarrow> \<exists>e. fst (cryptfs_hw_update_key u c h w) = Inr e"
  using load_resolves [of w]
  by (auto simp: update_form Let_def pointers_resolved_def call_ptr_resolved)

lemma wipe_no_fault:
  "library_state_ok w \<Longrightarrow> \<exists>e. fst (cryptfs_hw_wipe_key u w) = Inr e"
  using load_resolves [of w]
  by (auto simp: wipe_form Let_def pointers_resolved_def call_ptr_resolved)

lemma get_tmp_passwd_ok:
  "library_state_ok w \<Longrightarrow> library_state_ok (snd (get_tmp_passwd p w))"
  by (simp add: library_state_ok_def pointers_resolved_def get_tmp_passwd_fields)

lemma set_key_no_fault:
  assumes ok: "library_state_ok w"
  shows "\<exists>e. fst (set_key cur pw mode opn w) = Inr e"
proof -
  obtain tp w1 where 1: "get_tmp_passwd pw w = (tp, w1)" by (cases "get_tmp_passwd pw w")
  obtain tc w2 where 2: "get_tmp_passwd cur w1 = (tc, w2)" by (cases "get_tmp_passwd cur w1")
  have ok2: "library_state_ok w2"
    using get_tmp_passwd_ok [OF get_tmp_passwd_ok [OF ok, of pw], of cur] 1 2 by simp
  have c: "\<And>u h r v. cryptfs_hw_create_key u h w2 = (r, v) \<Longrightarrow> \<exists>e. r = Inr e"
    using create_no_fault [OF ok2] by (metis fst_conv)
  have u: "\<And>u a h r v. cryptfs_hw_update_key u a h w2 = (r, v) \<Longrightarrow> \<exists>e. r = Inr e"
    using update_no_fault [OF ok2] by (metis fst_conv)
  show ?thesis
    by (auto simp: set_key_def 1 2 split: option.splits sum.splits prod.splits dest: c u)
qed

lemma run_op_no_fault: "library_state_ok w \<Longrightarrow> \<exists>e. fst (run_op op w) = Inr e"
  by (cases op)
     (simp_all add: set_hw_device_encryption_key_def update_hw_device_encryption_key_def
        clear_hw_device_encryption_key_def set_key_no_fault wipe_no_fault)

lemma clear_shape:
  assumes ok: "library_state_ok w"
  shows "clear_hw_device_encryption_key w =
     (let w1 = snd (load_qseecom_library w);
          c = Tee_call ''QSEECom_wipe_key'' (map_usage w CRYPTFS_HW_KM_USAGE_DISK_ENCRYPTION) []
      in if fst (load_qseecom_library w) \<noteq> 0
         then (Inr (tee_status w (tee_calls w) c), w1\<lparr>tee_calls := tee_calls w @ [c]\<rparr>)
         else (Inr CRYPTFS_HW_WIPE_KEY_FAILED, w1))"
  using load_resolves [OF ok]
  by (simp add: clear_hw_device_encryption_key_def wipe_form Let_def load_result
      pointers_resolved_def call_ptr_resolved load_fields)

lemma map_usage_disk:
  "map_usage w CRYPTFS_HW_KM_USAGE_DISK_ENCRYPTION =
     (if is_ice_enabled w = QTI_ICE_STORAGE_UFS then CRYPTFS_HW_KM_USAGE_UFS_ICE_DISK_ENCRYPTION
      else if is_ice_enabled w = QTI_ICE_STORAGE_SDCC then CRYPTFS_HW_KM_USAGE_SDCC_ICE_DISK_ENCRYPTION
      else CRYPTFS_HW_KM_USAGE_DISK_ENCRYPTION)"
  by (simp add: map_usage_def Let_def)

subsection \<open>The loader does not depend on the heap\<close>

lemma loop_heap_indep:
  "is_qseecom_up_loop i (w\<lparr>mallocs := m, heap := h\<rparr>) =
     (fst (is_qseecom_up_loop i w), (snd (is_qseecom_up_loop i w))\<lparr>mallocs := m, heap := h\<rparr>)"
proof (induction i w rule: is_qseecom_up_loop.induct)
  case (1 i w)
  show ?case
  proof (cases "i < CRYPTFS_HW_UP_CHECK_COUNT")
    case False
    then show ?thesis
      by (subst (1 2 3) is_qseecom_up_loop.simps) simp
  next
    case True
    show ?thesis
    proof (cases "sys_keymaster_loaded w (polls w) = Some ''true''")
      case t: True
      with True show ?thesis
        by (subst (1 2 3) is_qseecom_up_loop.simps) (simp add: ready_iff)
    next
      case f: False
      have upd: "w\<lparr>mallocs := m, heap := h, polls := polls w + 1\<rparr> = w\<lparr>polls := polls w + 1, mallocs := m, heap := h\<rparr>"
        by simp
      from True f 1 have ih: "is_qseecom_up_loop (i + 1) (w\<lparr>polls := polls w + 1, mallocs := m, heap := h\<rparr>) =
     (fst (is_qseecom_up_loop (i + 1) (w\<lparr>polls := polls w + 1\<rparr>)),
      (snd (is_qseecom_up_loop (i + 1) (w\<lparr>polls := polls w + 1\<rparr>)))\<lparr>mallocs := m, heap := h\<rparr>)"
        by (simp add: ready_iff)
      have l: "is_qseecom_up_loop i (w\<lparr>mallocs := m, heap := h\<rparr>) =
          is_qseecom_up_loop (i + 1) (w\<lparr>mallocs := m, heap := h, polls := polls w + 1\<rparr>)"
        using True f by (subst is_qseecom_up_loop.simps) (simp add: ready_iff)
      have r: "is_qseecom_up_loop i w = is_qseecom_up_loop (i + 1) (w\<lparr>polls := polls w + 1\<rparr>)"
        using True f by (subst is_qseecom_up_loop.simps) (simp add: ready_iff)
      show ?thesis unfolding l r upd ih ..
    qed
  qed
qed

lemma load_heap_indep:
  "load_qseecom_library (w\<lparr>mallocs := m, heap := h\<rparr>) =
     (fst (load_qseecom_library w), (snd (load_qseecom_library w))\<lparr>mallocs := m, heap := h\<rparr>)"
proof -
  obtain up w1 where e: "is_qseecom_up w = (up, w1)" by (cases "is_qseecom_up w")
  then have e': "is_qseecom_up (w\<lparr>mallocs := m, heap := h\<rparr>) = (up, w1\<lparr>mallocs := m, heap := h\<rparr>)"
    by (simp add: is_qseecom_up_def loop_heap_indep)
  show ?thesis
    by (simp add: load_qseecom_library_def e e' Let_def dl_log_def dlsym_def dlerror_def)
qed

subsection \<open>An operation that finds the TEE not ready, two sample devices\<close>

lemma load_times_out:
  assumes "loaded_library w = 0"
    and "\<forall>k < CRYPTFS_HW_UP_CHECK_COUNT. sys_keymaster_loaded w (polls w + k) \<noteq> Some ''true''"
  shows "load_qseecom_library w = (0, w\<lparr>polls := polls w + CRYPTFS_HW_UP_CHECK_COUNT\<rparr>)"
proof -
  have "is_qseecom_up w = (0, w\<lparr>polls := polls w + CRYPTFS_HW_UP_CHECK_COUNT\<rparr>)"
    using loop_never_ready [of 0 w] assms(2) by (simp add: is_qseecom_up_def)
  with assms(1) show ?thesis by (simp add: load_qseecom_library_def)
qed

lemma is_ice_enabled_heap_indep [simp]:
  "is_ice_enabled (w\<lparr>mallocs := m, heap := h\<rparr>) = is_ice_enabled w"
  by (simp add: is_ice_enabled_def access_def)

lemma map_usage_heap_indep [simp]:
  "map_usage (w\<lparr>mallocs := m, heap := h\<rparr>) u = map_usage w u"
  by (simp add: map_usage_def)

lemma set_key_forwards_buffer:
  assumes ok: "library_state_ok w"
    and alloc: "malloc_outcome w (mallocs w) = Some g"
    and up: "fst (load_qseecom_library w) \<noteq> 0"
  shows "tee_calls (snd (set_hw_device_encryption_key (Some s) (Some ''aes-xts'') w)) =
     tee_calls w @ [Tee_call ''QSEECom_create_key'' (map_usage w CRYPTFS_HW_KM_USAGE_DISK_ENCRYPTION)
       [take MAX_PASSWORD_LEN s @ replicate (MAX_PASSWORD_LEN - length s) 0]]"
proof -
  define blk where "blk = \<lparr>bytes = take MAX_PASSWORD_LEN s @ replicate (MAX_PASSWORD_LEN - length s) (0::byte),
                           released = False\<rparr>"
  define w1 where "w1 = w\<lparr>mallocs := mallocs w + 1, heap := heap w @ [blk]\<rparr>"
  define v where "v = snd (load_qseecom_library w)"
  define v1 where "v1 = v\<lparr>mallocs := mallocs w + 1, heap := heap w @ [blk]\<rparr>"
  have 1: "get_tmp_passwd (Some s) w = (Some (length (heap w)), w1)"
    using get_tmp_passwd_buffer [OF alloc, of s] by (simp add: w1_def blk_def)
  have 2: "get_tmp_passwd None w1 = (None, w1)" by (rule get_tmp_passwd_null)
  have hw: "is_hw_disk_encryption (Some ''aes-xts'') \<noteq> 0"
    by (simp add: is_hw_disk_encryption_def strcmp_def)
  have l: "load_qseecom_library w1 = (fst (load_qseecom_library w), v1)"
    by (simp add: w1_def v1_def v_def load_heap_indep)
  have flag: "loaded_library v \<noteq> 0" using up by (simp add: v_def load_result)
  then have res: "pointers_resolved v" using load_resolves [OF ok] by (simp add: v_def)
  have pk: "peek v1 (length (heap w)) = bytes blk"
    by (simp add: peek_def v1_def)
  have tv: "tee_calls v = tee_calls w" by (simp add: v_def load_fields)
  define c where "c = Tee_call ''QSEECom_create_key'' (map_usage w CRYPTFS_HW_KM_USAGE_DISK_ENCRYPTION) [bytes blk]"
  have 3: "cryptfs_hw_create_key (map_usage w1 CRYPTFS_HW_KM_USAGE_DISK_ENCRYPTION) (length (heap w)) w1
      = (Inr (tee_status v1 (tee_calls v1) c), v1\<lparr>tee_calls := tee_calls v1 @ [c]\<rparr>)"
  proof -
    have mu: "map_usage w1 CRYPTFS_HW_KM_USAGE_DISK_ENCRYPTION = map_usage w CRYPTFS_HW_KM_USAGE_DISK_ENCRYPTION"
      by (simp add: w1_def)
    have sl: "snd (load_qseecom_library w1) = v1" using l by simp
    have fl: "loaded_library v1 \<noteq> 0" "qseecom_create_key v1 = Some ''QSEECom_create_key''"
      using flag res by (simp_all add: v1_def pointers_resolved_def)
    show ?thesis
      by (simp add: create_form sl Let_def fl call_ptr_resolved pk c_def mu)
  qed
  show ?thesis
    unfolding set_hw_device_encryption_key_def set_key_create_path [OF hw 1 2 3]
    by (simp add: secure_memset_fields free_fields c_def v1_def tv blk_def)
qed

lemma booted_start: "program_start booted_device"
  by (simp add: program_start_def booted_device_def)

lemma booted_ok: "library_state_ok booted_device"
  by (simp add: library_state_ok_def booted_device_def)

lemma booted_up: "is_qseecom_up booted_device = (1, booted_device\<lparr>polls := 1\<rparr>)"
  unfolding is_qseecom_up_def
  by (subst is_qseecom_up_loop.simps) (simp add: ready_iff booted_device_def)

lemma booted_loads:
  "load_qseecom_library booted_device =
     (1, booted_device
           \<lparr>loaded_library := 1,
            qseecom_create_key := Some ''QSEECom_create_key'',
            qseecom_update_key := Some ''QSEECom_update_key_user_info'',
            qseecom_wipe_key := Some ''QSEECom_wipe_key'',
            polls := 1,
            dl_calls := [Dlopen QSEECOM_LIBRARY_NAME, Dlsym ''QSEECom_create_key'',
               Dlsym ''QSEECom_update_key_user_info'', Dlsym ''QSEECom_wipe_key'']\<rparr>)"
  unfolding load_qseecom_library_def booted_up
  by (simp add: booted_device_def dl_log_def dlsym_def dlerror_def)

lemma booted_usage: "map_usage booted_device CRYPTFS_HW_KM_USAGE_DISK_ENCRYPTION = 4"
  by (simp add: map_usage_def is_ice_enabled_def access_def property_get_def booted_device_def)

lemma stalled_unloaded:
  "load_qseecom_library stalled_device = (0, stalled_device\<lparr>polls := CRYPTFS_HW_UP_CHECK_COUNT\<rparr>)"
  using load_times_out [of stalled_device]
  by (simp add: stalled_device_def booted_device_def)

lemma stalled_ok: "library_state_ok stalled_device"
  by (simp add: library_state_ok_def stalled_device_def booted_device_def)

lemma create_unavailable:
  "fst (load_qseecom_library w) = 0 \<Longrightarrow>
   cryptfs_hw_create_key u h w = (Inr CRYPTFS_HW_CREATE_KEY_FAILED, snd (load_qseecom_library w))"
  by (simp add: create_form Let_def load_result)

lemma update_unavailable:
  "fst (load_qseecom_library w) = 0 \<Longrightarrow>
   cryptfs_hw_update_key u c h w = (Inr CRYPTFS_HW_UPDATE_KEY_FAILED, snd (load_qseecom_library w))"
  by (simp add: update_form Let_def load_result)

lemma wipe_unavailable:
  "fst (load_qseecom_library w) = 0 \<Longrightarrow>
   cryptfs_hw_wipe_key u w = (Inr CRYPTFS_HW_WIPE_KEY_FAILED, snd (load_qseecom_library w))"
  by (simp add: wipe_form Let_def load_result)

subsection \<open>What the key operations leave on the heap\<close>

lemma heap_secure_memset:
  assumes "p < length (heap v)" and "length (bytes (heap v ! p)) = MAX_PASSWORD_LEN"
  shows "heap (secure_memset p 0 MAX_PASSWORD_LEN v) =
     (heap v)[p := (heap v ! p)\<lparr>bytes := replicate MAX_PASSWORD_LEN 0\<rparr>]"
proof -
  have "secure_memset_loop (bytes (heap v ! p)) 0 0 MAX_PASSWORD_LEN = replicate MAX_PASSWORD_LEN 0"
    using assms(2) by (subst secure_memset_loop_fill) simp_all
  with assms(1) show ?thesis by (simp add: secure_memset_def peek_def poke_def)
qed

lemma heap_free:
  "p < length (heap v) \<Longrightarrow>
   heap (free (Some p) v) = (heap v)[p := (heap v ! p)\<lparr>released := True\<rparr>]"
  by (simp add: free_def)

lemma heap_free_null: "heap (free None v) = heap v"
  by (simp add: free_def)

lemma update_fields:
  "heap (snd (cryptfs_hw_update_key u c h w)) = heap w"
  by (simp add: update_form Let_def call_ptr_fields load_fields)

lemma get_tmp_passwd_cases:
  "get_tmp_passwd pw w = (None, w) \<or>
   get_tmp_passwd pw w = (None, w\<lparr>mallocs := mallocs w + 1\<rparr>) \<or>
   (\<exists>s. pw = Some s \<and> get_tmp_passwd pw w =
      (Some (length (heap w)),
       w\<lparr>mallocs := mallocs w + 1,
         heap := heap w @ [\<lparr>bytes = take MAX_PASSWORD_LEN s @ replicate (MAX_PASSWORD_LEN - length s) 0,
                            released = False\<rparr>]\<rparr>))"
proof (cases pw)
  case None
  then show ?thesis by (simp add: get_tmp_passwd_null)
next
  case (Some s)
  show ?thesis
  proof (cases "malloc_outcome w (mallocs w)")
    case None
    with Some show ?thesis by (simp add: get_tmp_passwd_alloc_failed)
  next
    case g: (Some g)
    with Some show ?thesis by (simp add: get_tmp_passwd_buffer)
  qed
qed

text \<open>
  The heap after a key operation, in a state where a set flag comes with resolved
  pointers: the buffers the operation allocated are at the end of the heap, zeroed
  and freed, on every path but one (\<open>update_leaves_old_password_without_new_buffer\<close>).
\<close>

lemma zero_and_free_last:
  assumes h: "heap v = hs @ [\<lparr>bytes = bs, released = False\<rparr>]" and l: "length bs = MAX_PASSWORD_LEN"
  shows "heap (free (Some (length hs)) (secure_memset (length hs) 0 MAX_PASSWORD_LEN v)) =
     hs @ [\<lparr>bytes = replicate MAX_PASSWORD_LEN 0, released = True\<rparr>]"
proof -
  have p: "length hs < length (heap v)" by (simp add: h)
  have b: "length (bytes (heap v ! length hs)) = MAX_PASSWORD_LEN" by (simp add: h l)
  have p': "length hs < length (heap (secure_memset (length hs) 0 MAX_PASSWORD_LEN v))"
    using p by (simp add: secure_memset_fields)
  show ?thesis
    unfolding heap_free [OF p'] heap_secure_memset [OF p b]
    by (simp add: h)
qed

lemma set_heap_after:
  assumes ok: "library_state_ok w"
  shows "heap (snd (set_hw_device_encryption_key pw mode w)) =
     heap w @ (if is_hw_disk_encryption mode \<noteq> 0 \<and> fst (get_tmp_passwd pw w) \<noteq> None
               then [\<lparr>bytes = replicate MAX_PASSWORD_LEN 0, released = True\<rparr>] else [])"
proof (cases "is_hw_disk_encryption mode = 0")
  case True
  then show ?thesis by (simp add: set_hw_device_encryption_key_def set_key_disabled)
next
  case hw: False
  from get_tmp_passwd_cases [of pw w] show ?thesis
  proof (elim disjE exE conjE)
    assume 1: "get_tmp_passwd pw w = (None, w)"
    with hw show ?thesis
      by (simp add: set_hw_device_encryption_key_def set_key_no_new_buffer get_tmp_passwd_null)
  next
    assume 1: "get_tmp_passwd pw w = (None, w\<lparr>mallocs := mallocs w + 1\<rparr>)"
    with hw show ?thesis
      by (simp add: set_hw_device_encryption_key_def set_key_no_new_buffer get_tmp_passwd_null)
  next
    fix s
    define blk where "blk = \<lparr>bytes = take MAX_PASSWORD_LEN s @ replicate (MAX_PASSWORD_LEN - length s) (0::byte),
                             released = False\<rparr>"
    define w1 where "w1 = w\<lparr>mallocs := mallocs w + 1, heap := heap w @ [blk]\<rparr>"
    assume "pw = Some s" and "get_tmp_passwd pw w =
      (Some (length (heap w)),
       w\<lparr>mallocs := mallocs w + 1,
         heap := heap w @ [\<lparr>bytes = take MAX_PASSWORD_LEN s @ replicate (MAX_PASSWORD_LEN - length s) 0,
                            released = False\<rparr>]\<rparr>)"
    then have 1: "get_tmp_passwd pw w = (Some (length (heap w)), w1)"
      by (simp add: w1_def blk_def)
    have 2: "get_tmp_passwd None w1 = (None, w1)" by (rule get_tmp_passwd_null)
    have ok1: "library_state_ok w1"
      using ok by (simp add: w1_def library_state_ok_def pointers_resolved_def)
    obtain r w4 where 3:
      "cryptfs_hw_create_key (map_usage w1 CRYPTFS_HW_KM_USAGE_DISK_ENCRYPTION) (length (heap w)) w1 = (r, w4)"
      by (cases "cryptfs_hw_create_key (map_usage w1 CRYPTFS_HW_KM_USAGE_DISK_ENCRYPTION) (length (heap w)) w1")
    from create_no_fault [OF ok1, of "map_usage w1 CRYPTFS_HW_KM_USAGE_DISK_ENCRYPTION" "length (heap w)"] 3
    obtain e where r: "r = Inr e" by auto
    have h4: "heap w4 = heap w @ [\<lparr>bytes = take MAX_PASSWORD_LEN s @ replicate (MAX_PASSWORD_LEN - length s) 0,
                            released = False\<rparr>]"
      using create_fields(7) [of "map_usage w1 CRYPTFS_HW_KM_USAGE_DISK_ENCRYPTION" "length (heap w)" w1] 3
      by (simp add: w1_def blk_def)
    have "heap (snd (set_hw_device_encryption_key pw mode w)) =
        heap (free (Some (length (heap w))) (secure_memset (length (heap w)) 0 MAX_PASSWORD_LEN w4))"
      unfolding set_hw_device_encryption_key_def set_key_create_path [OF hw 1 2 3]
      by (simp add: r heap_free_null)
    also have "\<dots> = heap w @ [\<lparr>bytes = replicate MAX_PASSWORD_LEN 0, released = True\<rparr>]"
      by (rule zero_and_free_last [OF h4]) simp
    finally show ?thesis using hw 1 by simp
  qed
qed

lemma zero_and_free_last_two:
  assumes h: "heap v = hs @ [\<lparr>bytes = bs, released = False\<rparr>, \<lparr>bytes = cs, released = False\<rparr>]"
    and l: "length bs = MAX_PASSWORD_LEN" "length cs = MAX_PASSWORD_LEN"
  shows "heap (free (Some (Suc (length hs))) (free (Some (length hs))
           (secure_memset (length hs) 0 MAX_PASSWORD_LEN
              (secure_memset (Suc (length hs)) 0 MAX_PASSWORD_LEN v)))) =
     hs @ [\<lparr>bytes = replicate MAX_PASSWORD_LEN 0, released = True\<rparr>,
           \<lparr>bytes = replicate MAX_PASSWORD_LEN 0, released = True\<rparr>]"
proof -
  define v1 where "v1 = secure_memset (Suc (length hs)) 0 MAX_PASSWORD_LEN v"
  define v2 where "v2 = secure_memset (length hs) 0 MAX_PASSWORD_LEN v1"
  define v3 where "v3 = free (Some (length hs)) v2"
  have h1: "heap v1 = hs @ [\<lparr>bytes = bs, released = False\<rparr>,
                            \<lparr>bytes = replicate MAX_PASSWORD_LEN 0, released = False\<rparr>]"
    unfolding v1_def
    by (subst heap_secure_memset) (simp_all add: h l nth_append list_update_append)
  have h2: "heap v2 = hs @ [\<lparr>bytes = replicate MAX_PASSWORD_LEN 0, released = False\<rparr>,
                            \<lparr>bytes = replicate MAX_PASSWORD_LEN 0, released = False\<rparr>]"
    unfolding v2_def
    by (subst heap_secure_memset) (simp_all add: h1 l nth_append list_update_append)
  have h3: "heap v3 = hs @ [\<lparr>bytes = replicate MAX_PASSWORD_LEN 0, released = True\<rparr>,
                            \<lparr>bytes = replicate MAX_PASSWORD_LEN 0, released = False\<rparr>]"
    unfolding v3_def
    by (subst heap_free) (simp_all add: h2 nth_append list_update_append)
  have "heap (free (Some (Suc (length hs))) v3) =
      hs @ [\<lparr>bytes = replicate MAX_PASSWORD_LEN 0, released = True\<rparr>,
            \<lparr>bytes = replicate MAX_PASSWORD_LEN 0, released = True\<rparr>]"
    by (subst heap_free) (simp_all add: h3 nth_append list_update_append)
  then show ?thesis by (simp add: v3_def v2_def v1_def)
qed

lemma update_heap_after:
  assumes ok: "library_state_ok w" and hw: "is_hw_disk_encryption mode \<noteq> 0"
    and new: "fst (get_tmp_passwd newpw w) \<noteq> None"
  shows "heap (snd (update_hw_device_encryption_key oldpw newpw mode w)) =
     heap w @ \<lparr>bytes = replicate MAX_PASSWORD_LEN 0, released = True\<rparr> #
       (if fst (get_tmp_passwd oldpw (snd (get_tmp_passwd newpw w))) \<noteq> None
        then [\<lparr>bytes = replicate MAX_PASSWORD_LEN 0, released = True\<rparr>] else [])"
proof -
  from get_tmp_passwd_cases [of newpw w] new obtain s where
    1: "get_tmp_passwd newpw w =
      (Some (length (heap w)),
       w\<lparr>mallocs := mallocs w + 1,
         heap := heap w @ [\<lparr>bytes = take MAX_PASSWORD_LEN s @ replicate (MAX_PASSWORD_LEN - length s) 0,
                            released = False\<rparr>]\<rparr>)"
    by auto
  define b1 where "b1 = take MAX_PASSWORD_LEN s @ replicate (MAX_PASSWORD_LEN - length s) (0::byte)"
  define w1 where "w1 = w\<lparr>mallocs := mallocs w + 1, heap := heap w @ [\<lparr>bytes = b1, released = False\<rparr>]\<rparr>"
  have 1: "get_tmp_passwd newpw w = (Some (length (heap w)), w1)"
    using 1 by (simp add: w1_def b1_def)
  have lb1: "length b1 = MAX_PASSWORD_LEN" by (simp add: b1_def)
  have ok1: "library_state_ok w1"
    using ok by (simp add: w1_def library_state_ok_def pointers_resolved_def)
  have hp1: "heap w1 = heap w @ [\<lparr>bytes = b1, released = False\<rparr>]" by (simp add: w1_def)
  from get_tmp_passwd_cases [of oldpw w1] show ?thesis
  proof (elim disjE exE conjE)
    assume 2: "get_tmp_passwd oldpw w1 = (None, w1)"
    have "heap (snd (update_hw_device_encryption_key oldpw newpw mode w)) =
        heap (free (Some (length (heap w))) (secure_memset (length (heap w)) 0 MAX_PASSWORD_LEN w1))"
      unfolding update_hw_device_encryption_key_def set_key_update_skipped [OF hw 1 2]
      by (simp add: heap_free_null)
    also have "\<dots> = heap w @ [\<lparr>bytes = replicate MAX_PASSWORD_LEN 0, released = True\<rparr>]"
      by (rule zero_and_free_last [OF hp1 lb1])
    finally show ?thesis using 1 2 by simp
  next
    define w2 where "w2 = w1\<lparr>mallocs := mallocs w1 + 1\<rparr>"
    assume "get_tmp_passwd oldpw w1 = (None, w1\<lparr>mallocs := mallocs w1 + 1\<rparr>)"
    then have 2: "get_tmp_passwd oldpw w1 = (None, w2)" by (simp add: w2_def)
    have hp2: "heap w2 = heap w @ [\<lparr>bytes = b1, released = False\<rparr>]" by (simp add: w2_def hp1)
    have "heap (snd (update_hw_device_encryption_key oldpw newpw mode w)) =
        heap (free (Some (length (heap w))) (secure_memset (length (heap w)) 0 MAX_PASSWORD_LEN w2))"
      unfolding update_hw_device_encryption_key_def set_key_update_skipped [OF hw 1 2]
      by (simp add: heap_free_null)
    also have "\<dots> = heap w @ [\<lparr>bytes = replicate MAX_PASSWORD_LEN 0, released = True\<rparr>]"
      by (rule zero_and_free_last [OF hp2 lb1])
    finally show ?thesis using 1 2 by simp
  next
    fix t
    define b2 where "b2 = take MAX_PASSWORD_LEN t @ replicate (MAX_PASSWORD_LEN - length t) (0::byte)"
    define w2 where "w2 = w1\<lparr>mallocs := mallocs w1 + 1,
        heap := heap w1 @ [\<lparr>bytes = b2, released = False\<rparr>]\<rparr>"
    assume "oldpw = Some t" and "get_tmp_passwd oldpw w1 =
      (Some (length (heap w1)),
       w1\<lparr>mallocs := mallocs w1 + 1,
          heap := heap w1 @ [\<lparr>bytes = take MAX_PASSWORD_LEN t @ replicate (MAX_PASSWORD_LEN - length t) 0,
                             released = False\<rparr>]\<rparr>)"
    then have 2: "get_tmp_passwd oldpw w1 = (Some (Suc (length (heap w))), w2)"
      by (simp add: w2_def b2_def hp1)
    have lb2: "length b2 = MAX_PASSWORD_LEN" by (simp add: b2_def)
    have ok2: "library_state_ok w2"
      using ok1 by (simp add: w2_def library_state_ok_def pointers_resolved_def)
    obtain r w3 where 3:
      "cryptfs_hw_update_key (map_usage w2 CRYPTFS_HW_KM_USAGE_DISK_ENCRYPTION)
         (Suc (length (heap w))) (length (heap w)) w2 = (r, w3)"
      by (cases "cryptfs_hw_update_key (map_usage w2 CRYPTFS_HW_KM_USAGE_DISK_ENCRYPTION)
         (Suc (length (heap w))) (length (heap w)) w2")
    from update_no_fault [OF ok2, of "map_usage w2 CRYPTFS_HW_KM_USAGE_DISK_ENCRYPTION"
        "Suc (length (heap w))" "length (heap w)"] 3
    obtain e where r: "r = Inr e" by auto
    have h3: "heap w3 = heap w @ [\<lparr>bytes = b1, released = False\<rparr>, \<lparr>bytes = b2, released = False\<rparr>]"
      using update_fields [of "map_usage w2 CRYPTFS_HW_KM_USAGE_DISK_ENCRYPTION"
          "Suc (length (heap w))" "length (heap w)" w2] 3
      by (simp add: w2_def hp1)
    have "heap (snd (update_hw_device_encryption_key oldpw newpw mode w)) =
        heap (free (Some (Suc (length (heap w)))) (free (Some (length (heap w)))
           (secure_memset (length (heap w)) 0 MAX_PASSWORD_LEN
              (secure_memset (Suc (length (heap w))) 0 MAX_PASSWORD_LEN w3))))"
      unfolding update_hw_device_encryption_key_def set_key_update_path [OF hw 1 2 3]
      by (simp add: r)
    also have "\<dots> = heap w @ [\<lparr>bytes = replicate MAX_PASSWORD_LEN 0, released = True\<rparr>,
           \<lparr>bytes = replicate MAX_PASSWORD_LEN 0, released = True\<rparr>]"
      by (rule zero_and_free_last_two [OF h3 lb1 lb2])
    finally show ?thesis using 1 2 by simp
  qed
qed

lemma set_zeroes_every_buffer:
  "library_state_ok w \<Longrightarrow> zeroed_since w (snd (set_hw_device_encryption_key pw mode w))"
  by (simp add: zeroed_since_def set_heap_after list_all_iff)

lemma update_zeroes_every_buffer_when_new_buffer_built:
  assumes ok: "library_state_ok w" and new: "fst (get_tmp_passwd newpw w) \<noteq> None"
  shows "zeroed_since w (snd (update_hw_device_encryption_key oldpw newpw mode w))"
proof (cases "is_hw_disk_encryption mode = 0")
  case True
  then show ?thesis
    by (simp add: zeroed_since_def update_hw_device_encryption_key_def set_key_disabled)
next
  case False
  then show ?thesis
    by (simp add: zeroed_since_def update_heap_after [OF ok _ new] list_all_iff)
qed

lemma update_leaves_old_password_without_new_buffer:
  assumes hw: "is_hw_disk_encryption mode \<noteq> 0"
    and new: "get_tmp_passwd newpw w = (None, w1)"
    and old: "malloc_outcome w1 (mallocs w1) = Some g"
  shows "update_hw_device_encryption_key (Some t) newpw mode w =
     (Inr (- 1),
      w1\<lparr>mallocs := mallocs w1 + 1,
         heap := heap w1 @ [\<lparr>bytes = take MAX_PASSWORD_LEN t @ replicate (MAX_PASSWORD_LEN - length t) 0,
                            released = False\<rparr>]\<rparr>)"
  unfolding update_hw_device_encryption_key_def set_key_no_new_buffer [OF hw new]
    get_tmp_passwd_buffer [OF old]
  by simp

lemma update_key_forwards_buffers:
  assumes ok: "library_state_ok w"
    and alloc_new: "malloc_outcome w (mallocs w) = Some g"
    and alloc_old: "malloc_outcome w (mallocs w + 1) = Some g'"
    and up: "fst (load_qseecom_library w) \<noteq> 0"
  shows "tee_calls (snd (update_hw_device_encryption_key (Some t) (Some s) (Some ''aes-xts'') w)) =
     tee_calls w @ [Tee_call ''QSEECom_update_key_user_info''
       (map_usage w CRYPTFS_HW_KM_USAGE_DISK_ENCRYPTION)
       [take MAX_PASSWORD_LEN t @ replicate (MAX_PASSWORD_LEN - length t) 0,
        take MAX_PASSWORD_LEN s @ replicate (MAX_PASSWORD_LEN - length s) 0]]"
proof -
  define b1 where "b1 = \<lparr>bytes = take MAX_PASSWORD_LEN s @ replicate (MAX_PASSWORD_LEN - length s) (0::byte),
                           released = False\<rparr>"
  define b2 where "b2 = \<lparr>bytes = take MAX_PASSWORD_LEN t @ replicate (MAX_PASSWORD_LEN - length t) (0::byte),
                           released = False\<rparr>"
  define w1 where "w1 = w\<lparr>mallocs := mallocs w + 1, heap := heap w @ [b1]\<rparr>"
  define w2 where "w2 = w\<lparr>mallocs := mallocs w + 2, heap := heap w @ [b1, b2]\<rparr>"
  define v where "v = snd (load_qseecom_library w)"
  define v2 where "v2 = v\<lparr>mallocs := mallocs w + 2, heap := heap w @ [b1, b2]\<rparr>"
  have 1: "get_tmp_passwd (Some s) w = (Some (length (heap w)), w1)"
    using get_tmp_passwd_buffer [OF alloc_new, of s] by (simp add: w1_def b1_def)
  have a2: "malloc_outcome w1 (mallocs w1) = Some g'" using alloc_old by (simp add: w1_def)
  have 2: "get_tmp_passwd (Some t) w1 = (Some (Suc (length (heap w))), w2)"
    using get_tmp_passwd_buffer [OF a2, of t] by (simp add: w1_def w2_def b2_def)
  have hw: "is_hw_disk_encryption (Some ''aes-xts'') \<noteq> 0"
    by (simp add: is_hw_disk_encryption_def strcmp_def)
  have sl: "snd (load_qseecom_library w2) = v2"
    by (simp add: w2_def v2_def v_def load_heap_indep)
  have flag: "loaded_library v \<noteq> 0" using up by (simp add: v_def load_result)
  then have res: "pointers_resolved v" using load_resolves [OF ok] by (simp add: v_def)
  have fl: "loaded_library v2 \<noteq> 0" "qseecom_update_key v2 = Some ''QSEECom_update_key_user_info''"
    using flag res by (simp_all add: v2_def pointers_resolved_def)
  have pk: "peek v2 (length (heap w)) = bytes b1" "peek v2 (Suc (length (heap w))) = bytes b2"
    by (simp_all add: peek_def v2_def nth_append)
  have mu: "map_usage w2 CRYPTFS_HW_KM_USAGE_DISK_ENCRYPTION = map_usage w CRYPTFS_HW_KM_USAGE_DISK_ENCRYPTION"
    by (simp add: w2_def)
  have tv: "tee_calls v2 = tee_calls w" by (simp add: v2_def v_def load_fields)
  define c where "c = Tee_call ''QSEECom_update_key_user_info''
      (map_usage w CRYPTFS_HW_KM_USAGE_DISK_ENCRYPTION) [bytes b2, bytes b1]"
  have 3: "cryptfs_hw_update_key (map_usage w2 CRYPTFS_HW_KM_USAGE_DISK_ENCRYPTION)
      (Suc (length (heap w))) (length (heap w)) w2
      = (Inr (tee_status v2 (tee_calls v2) c), v2\<lparr>tee_calls := tee_calls v2 @ [c]\<rparr>)"
    by (simp add: update_form sl Let_def fl call_ptr_resolved pk c_def mu)
  show ?thesis
    unfolding update_hw_device_encryption_key_def set_key_update_path [OF hw 1 2 3]
    by (simp add: secure_memset_fields free_fields c_def tv b1_def b2_def)
qed

lemma stalled_start: "program_start stalled_device"
  by (simp add: program_start_def stalled_device_def booted_device_def)

subsection \<open>The result of an operation that leaves the flag unset\<close>

lemma is_hw_disk_encryption_nonzero:
  "(is_hw_disk_encryption mode \<noteq> 0) = (mode = Some ''aes-xts'')"
  by (simp add: is_hw_disk_encryption_def strcmp_def split: option.splits)

lemma get_tmp_passwd_built:
  "(fst (get_tmp_passwd pw w) \<noteq> None) = (pw \<noteq> None \<and> malloc_outcome w (mallocs w) \<noteq> None)"
proof (cases pw)
  case None
  then show ?thesis by (simp add: get_tmp_passwd_null)
next
  case (Some s)
  then show ?thesis
    by (cases "malloc_outcome w (mallocs w)")
       (simp_all add: get_tmp_passwd_alloc_failed get_tmp_passwd_buffer)
qed

lemma get_tmp_passwd_built_mallocs:
  "fst (get_tmp_passwd pw w) \<noteq> None \<Longrightarrow> mallocs (snd (get_tmp_passwd pw w)) = mallocs w + 1"
proof (cases pw)
  case None
  assume "fst (get_tmp_passwd pw w) \<noteq> None"
  with None show ?thesis by (simp add: get_tmp_passwd_null)
next
  case (Some s)
  assume "fst (get_tmp_passwd pw w) \<noteq> None"
  with Some show ?thesis
    by (cases "malloc_outcome w (mallocs w)")
       (simp_all add: get_tmp_passwd_alloc_failed get_tmp_passwd_buffer)
qed

lemma set_unloaded_exact:
  assumes z: "loaded_library (snd (set_hw_device_encryption_key pw mode w)) = 0"
  shows "fst (set_hw_device_encryption_key pw mode w) =
     Inr (if reaches_wrapper (Set_key pw mode) w then CRYPTFS_HW_CREATE_KEY_FAILED else - 1)"
proof (cases "is_hw_disk_encryption mode = 0")
  case True
  then have "mode \<noteq> Some ''aes-xts''" using is_hw_disk_encryption_nonzero [of mode] by simp
  with True show ?thesis by (simp add: set_hw_device_encryption_key_def set_key_disabled)
next
  case hw: False
  then have m: "mode = Some ''aes-xts''" using is_hw_disk_encryption_nonzero [of mode] by simp
  obtain tp w1 where 1: "get_tmp_passwd pw w = (tp, w1)" by (cases "get_tmp_passwd pw w")
  have 2: "get_tmp_passwd None w1 = (None, w1)" by (rule get_tmp_passwd_null)
  have b: "(tp \<noteq> None) = (pw \<noteq> None \<and> malloc_outcome w (mallocs w) \<noteq> None)"
    using get_tmp_passwd_built [of pw w] 1 by simp
  show ?thesis
  proof (cases tp)
    case None
    with hw 1 2 b m show ?thesis
      by (simp add: set_hw_device_encryption_key_def set_key_no_new_buffer)
  next
    case (Some p)
    obtain r w4 where 3:
      "cryptfs_hw_create_key (map_usage w1 CRYPTFS_HW_KM_USAGE_DISK_ENCRYPTION) p w1 = (r, w4)"
      by (cases "cryptfs_hw_create_key (map_usage w1 CRYPTFS_HW_KM_USAGE_DISK_ENCRYPTION) p w1")
    note path = set_key_create_path [OF hw 1 [unfolded Some] 2 3]
    from z path have "loaded_library w4 = 0"
      by (cases r) (simp_all add: set_hw_device_encryption_key_def secure_memset_fields free_fields)
    from create_unloaded [OF 3 this] path b m Some show ?thesis
      by (simp add: set_hw_device_encryption_key_def)
  qed
qed

lemma update_unloaded_exact:
  assumes z: "loaded_library (snd (update_hw_device_encryption_key old pw mode w)) = 0"
  shows "fst (update_hw_device_encryption_key old pw mode w) =
     Inr (if reaches_wrapper (Update_key old pw mode) w then CRYPTFS_HW_UPDATE_KEY_FAILED else - 1)"
proof (cases "is_hw_disk_encryption mode = 0")
  case True
  then have "mode \<noteq> Some ''aes-xts''" using is_hw_disk_encryption_nonzero [of mode] by simp
  with True show ?thesis by (simp add: update_hw_device_encryption_key_def set_key_disabled)
next
  case hw: False
  then have m: "mode = Some ''aes-xts''" using is_hw_disk_encryption_nonzero [of mode] by simp
  obtain tp w1 where 1: "get_tmp_passwd pw w = (tp, w1)" by (cases "get_tmp_passwd pw w")
  obtain tc w2 where 2: "get_tmp_passwd old w1 = (tc, w2)" by (cases "get_tmp_passwd old w1")
  have b1: "(tp \<noteq> None) = (pw \<noteq> None \<and> malloc_outcome w (mallocs w) \<noteq> None)"
    using get_tmp_passwd_built [of pw w] 1 by simp
  have b2: "(tc \<noteq> None) = (old \<noteq> None \<and> malloc_outcome w1 (mallocs w1) \<noteq> None)"
    using get_tmp_passwd_built [of old w1] 2 by simp
  have mo: "malloc_outcome w1 = malloc_outcome w"
    using get_tmp_passwd_fields(8) [of pw w] 1 by simp
  show ?thesis
  proof (cases tp)
    case None
    with hw 1 2 b1 m show ?thesis
      by (auto simp: update_hw_device_encryption_key_def set_key_no_new_buffer)
  next
    case p: (Some p)
    have ms: "mallocs w1 = mallocs w + 1"
      using get_tmp_passwd_built_mallocs [of pw w] 1 p by simp
    show ?thesis
    proof (cases tc)
      case None
      with hw 1 2 b1 b2 m p mo ms show ?thesis
        by (simp add: update_hw_device_encryption_key_def set_key_update_skipped)
    next
      case (Some c)
      obtain r w3 where 3:
        "cryptfs_hw_update_key (map_usage w2 CRYPTFS_HW_KM_USAGE_DISK_ENCRYPTION) c p w2 = (r, w3)"
        by (cases "cryptfs_hw_update_key (map_usage w2 CRYPTFS_HW_KM_USAGE_DISK_ENCRYPTION) c p w2")
      note path = set_key_update_path [OF hw 1 [unfolded p] 2 [unfolded Some] 3]
      from z path have "loaded_library w3 = 0"
        by (cases r)
           (simp_all add: update_hw_device_encryption_key_def secure_memset_fields free_fields)
      from update_unloaded [OF 3 this] path b1 b2 m p Some mo ms show ?thesis
        by (simp add: update_hw_device_encryption_key_def)
    qed
  qed
qed

lemma run_op_unloaded_exact:
  assumes "loaded_library (snd (run_op op w)) = 0"
  shows "tee_calls (snd (run_op op w)) = tee_calls w \<and>
         fst (run_op op w) = Inr (if reaches_wrapper op w then sentinel op else - 1)"
proof (cases op)
  case (Set_key pw mode)
  with assms set_unloaded_exact [of pw mode w] run_op_unloaded [of op w] show ?thesis by simp
next
  case (Update_key old pw mode)
  with assms update_unloaded_exact [of old pw mode w] run_op_unloaded [of op w] show ?thesis by simp
next
  case Clear_key
  with assms clear_unloaded [of w] show ?thesis by simp
qed

text \<open>A device whose TEE never comes up stays unloaded.\<close>

lemma update_loader_fields:
  "loaded_library (snd (cryptfs_hw_update_key u c h w)) = loaded_library (snd (load_qseecom_library w))"
  "sys_keymaster_loaded (snd (cryptfs_hw_update_key u c h w)) = sys_keymaster_loaded w"
  by (simp_all add: update_form Let_def call_ptr_fields load_fields)

lemma wipe_loader_fields:
  "loaded_library (snd (cryptfs_hw_wipe_key u w)) = loaded_library (snd (load_qseecom_library w))"
  by (simp add: wipe_form Let_def call_ptr_fields)

lemma never_ready_load:
  "loaded_library w = 0 \<Longrightarrow> \<forall>k. sys_keymaster_loaded w k \<noteq> Some ''true'' \<Longrightarrow>
   loaded_library (snd (load_qseecom_library w)) = 0"
  using load_times_out [of w] by simp

lemma never_ready_stays_unloaded:
  assumes z: "loaded_library w = 0" and n: "\<forall>k. sys_keymaster_loaded w k \<noteq> Some ''true''"
  shows "loaded_library (snd (run_op op w)) = 0"
proof -
  let ?Q = "\<lambda>v. loaded_library v = 0 \<and> (\<forall>k. sys_keymaster_loaded v k \<noteq> Some ''true'')"
  have sk: "?Q (snd (set_key cur pw mode opn w))" for cur pw mode opn
  proof (rule set_key_preserves [where Q = ?Q])
    show "?Q (snd (cryptfs_hw_update_key u a b v))" if "?Q v" for u a b v
      using that never_ready_load [of v] by (simp add: update_loader_fields)
    show "?Q (snd (cryptfs_hw_create_key u a v))" if "?Q v" for u a v
      using that never_ready_load [of v] by (simp add: create_fields)
    show "?Q w" using z n by simp
  qed (simp_all add: get_tmp_passwd_fields secure_memset_fields free_fields)
  show ?thesis
  proof (cases op)
    case Clear_key
    with z n never_ready_load [of w] show ?thesis
      by (simp add: clear_hw_device_encryption_key_def wipe_loader_fields)
  qed (simp_all add: set_hw_device_encryption_key_def update_hw_device_encryption_key_def sk)
qed

section \<open>The claims\<close>

text \<open>
  Claim C1, evaluated on the just booted device: \<open>update_hw_device_encryption_key\<close>
  with the old password \<open>old\<close>, a null new password and the mode \<open>aes-xts\<close> returns
  -1 and leaves behind the buffer it allocated for the old password, neither zeroed
  nor freed, with the three bytes of the password still in it. So the buffers the
  call allocated are not all zero when it returns. (On the other paths they are: see
  \<open>set_zeroes_every_buffer\<close> and \<open>update_zeroes_every_buffer_when_new_buffer_built\<close>.)
\<close>

theorem update_with_null_new_password_leaves_old_password:
  "update_hw_device_encryption_key (Some [0x6F, 0x6C, 0x64]) None (Some ''aes-xts'') booted_device =
     (Inr (- 1),
      booted_device\<lparr>mallocs := 1,
        heap := [\<lparr>bytes = [0x6F, 0x6C, 0x64] @ replicate 29 0, released = False\<rparr>]\<rparr>) \<and>
   \<not> zeroed_since booted_device
       (snd (update_hw_device_encryption_key (Some [0x6F, 0x6C, 0x64]) None (Some ''aes-xts'')
          booted_device))"
proof -
  have hw: "is_hw_disk_encryption (Some ''aes-xts'') \<noteq> 0"
    by (simp add: is_hw_disk_encryption_def strcmp_def)
  have a: "malloc_outcome booted_device (mallocs booted_device) = Some (\<lambda>i. 0xA5)"
    by (simp add: booted_device_def)
  have e: "update_hw_device_encryption_key (Some [0x6F, 0x6C, 0x64]) None (Some ''aes-xts'') booted_device =
     (Inr (- 1),
      booted_device\<lparr>mallocs := 1,
        heap := [\<lparr>bytes = [0x6F, 0x6C, 0x64] @ replicate 29 0, released = False\<rparr>]\<rparr>)"
    unfolding update_hw_device_encryption_key_def
      set_key_no_new_buffer [OF hw get_tmp_passwd_null] get_tmp_passwd_buffer [OF a]
    by (simp add: booted_device_def)
  show ?thesis
    unfolding e by (simp add: zeroed_since_def booted_device_def)
qed

text \<open>
  Claim C2. A call of \<open>set_hw_device_encryption_key\<close> with the mode \<open>aes-xts\<close> and a
  password whose buffer is allocated, made while the library is not loaded and while
  none of the 100 polls of \<open>sys.keymaster.loaded\<close> reads \<open>true\<close>, returns
  \<open>CRYPTFS_HW_CREATE_KEY_FAILED\<close> (-7) and calls no entry point of the TEE library; it
  does not even call \<open>dlopen\<close>, and it has polled exactly 100 times.
\<close>

theorem set_key_aborts_when_tee_never_ready:
  assumes alloc: "malloc_outcome w (mallocs w) = Some g"
    and unloaded: "loaded_library w = 0"
    and never: "\<forall>k < CRYPTFS_HW_UP_CHECK_COUNT. sys_keymaster_loaded w (polls w + k) \<noteq> Some ''true''"
  shows "fst (set_hw_device_encryption_key (Some s) (Some ''aes-xts'') w) = Inr CRYPTFS_HW_CREATE_KEY_FAILED \<and>
         tee_calls (snd (set_hw_device_encryption_key (Some s) (Some ''aes-xts'') w)) = tee_calls w \<and>
         dl_calls (snd (set_hw_device_encryption_key (Some s) (Some ''aes-xts'') w)) = dl_calls w \<and>
         polls (snd (set_hw_device_encryption_key (Some s) (Some ''aes-xts'') w)) =
           polls w + CRYPTFS_HW_UP_CHECK_COUNT"
proof -
  define w1 where "w1 = snd (get_tmp_passwd (Some s) w)"
  have 1: "get_tmp_passwd (Some s) w = (Some (length (heap w)), w1)"
    using get_tmp_passwd_buffer [OF alloc, of s] by (simp add: w1_def)
  have 2: "get_tmp_passwd None w1 = (None, w1)" by (rule get_tmp_passwd_null)
  have hw: "is_hw_disk_encryption (Some ''aes-xts'') \<noteq> 0"
    by (simp add: is_hw_disk_encryption_def strcmp_def)
  have f: "loaded_library w1 = 0" "polls w1 = polls w" "sys_keymaster_loaded w1 = sys_keymaster_loaded w"
    "tee_calls w1 = tee_calls w" "dl_calls w1 = dl_calls w"
    using unloaded by (simp_all add: w1_def get_tmp_passwd_fields)
  have l: "load_qseecom_library w1 = (0, w1\<lparr>polls := polls w1 + CRYPTFS_HW_UP_CHECK_COUNT\<rparr>)"
    using never f by (intro load_times_out) simp_all
  have 3: "cryptfs_hw_create_key (map_usage w1 CRYPTFS_HW_KM_USAGE_DISK_ENCRYPTION) (length (heap w)) w1
      = (Inr CRYPTFS_HW_CREATE_KEY_FAILED, w1\<lparr>polls := polls w1 + CRYPTFS_HW_UP_CHECK_COUNT\<rparr>)"
    by (simp add: cryptfs_hw_create_key_def l)
  show ?thesis
    unfolding set_hw_device_encryption_key_def set_key_create_path [OF hw 1 2 3]
    by (simp add: f secure_memset_fields free_fields)
qed

theorem set_key_aborts_when_tee_never_ready_witness:
  "malloc_outcome stalled_device (mallocs stalled_device) = Some (\<lambda>i. 0xA5) \<and>
   loaded_library stalled_device = 0 \<and>
   list_all (\<lambda>k. sys_keymaster_loaded stalled_device (polls stalled_device + k) \<noteq> Some ''true'')
     [0..<CRYPTFS_HW_UP_CHECK_COUNT] \<and>
   fst (set_hw_device_encryption_key (Some [0x70, 0x77]) (Some ''aes-xts'') stalled_device) =
     Inr CRYPTFS_HW_CREATE_KEY_FAILED \<and>
   tee_calls (snd (set_hw_device_encryption_key (Some [0x70, 0x77]) (Some ''aes-xts'') stalled_device)) = []"
proof -
  have a: "malloc_outcome stalled_device (mallocs stalled_device) = Some (\<lambda>i. 0xA5)"
    by (simp add: stalled_device_def booted_device_def)
  have b: "loaded_library stalled_device = 0"
    by (simp add: stalled_device_def booted_device_def)
  have c: "\<forall>k < CRYPTFS_HW_UP_CHECK_COUNT.
      sys_keymaster_loaded stalled_device (polls stalled_device + k) \<noteq> Some ''true''"
    by (simp add: stalled_device_def booted_device_def)
  have d: "tee_calls stalled_device = []"
    by (simp add: stalled_device_def booted_device_def)
  have e: "list_all (\<lambda>k. sys_keymaster_loaded stalled_device (polls stalled_device + k) \<noteq> Some ''true'')
     [0..<CRYPTFS_HW_UP_CHECK_COUNT]"
    using c by (simp add: list_all_iff)
  show ?thesis
    using set_key_aborts_when_tee_never_ready [OF a b c, of "[0x70, 0x77]"] a b d e by simp
qed

text \<open>
  Claim C3 says that, while the flag is unset, every key operation fails with its
  sentinel. On the just booted device, with the flag unset before and after,
  \<open>set_hw_device_encryption_key\<close> returns -1, not its sentinel -7, when the mode is not
  \<open>aes-xts\<close> and when the password is null: the operation stops at the guard of
  \<open>set_key\<close> before it gets to \<open>cryptfs_hw_create_key\<close>.
\<close>

theorem key_operation_stopped_before_wrapper_counterexample:
  "loaded_library booted_device = 0 \<and>
   loaded_library
     (snd (run_op (Set_key (Some [0x70, 0x77]) (Some ''aes-cbc-essiv:sha256'')) booted_device)) = 0 \<and>
   fst (run_op (Set_key (Some [0x70, 0x77]) (Some ''aes-cbc-essiv:sha256'')) booted_device) =
     Inr (- 1) \<and>
   fst (run_op (Set_key (Some [0x70, 0x77]) (Some ''aes-cbc-essiv:sha256'')) booted_device) \<noteq>
     Inr (sentinel (Set_key (Some [0x70, 0x77]) (Some ''aes-cbc-essiv:sha256''))) \<and>
   loaded_library (snd (run_op (Set_key None (Some ''aes-xts'')) booted_device)) = 0 \<and>
   fst (run_op (Set_key None (Some ''aes-xts'')) booted_device) = Inr (- 1) \<and>
   fst (run_op (Set_key None (Some ''aes-xts'')) booted_device) \<noteq>
     Inr (sentinel (Set_key None (Some ''aes-xts'')))"
proof -
  have z: "loaded_library booted_device = 0" by (simp add: booted_device_def)
  have g: "is_hw_disk_encryption (Some ''aes-cbc-essiv:sha256'') = 0"
    by (simp add: is_hw_disk_encryption_def strcmp_def)
  have hw: "is_hw_disk_encryption (Some ''aes-xts'') \<noteq> 0"
    by (simp add: is_hw_disk_encryption_def strcmp_def)
  have a: "run_op (Set_key (Some [0x70, 0x77]) (Some ''aes-cbc-essiv:sha256'')) booted_device =
      (Inr (- 1), booted_device)"
    by (simp add: set_hw_device_encryption_key_def set_key_disabled [OF g])
  have b: "run_op (Set_key None (Some ''aes-xts'')) booted_device = (Inr (- 1), booted_device)"
    by (simp add: set_hw_device_encryption_key_def
        set_key_no_new_buffer [OF hw get_tmp_passwd_null] get_tmp_passwd_null)
  show ?thesis unfolding a b using z by simp
qed

text \<open>
  Claim C3, amended. In every state of a run the flag \<open>loaded_library\<close> is 0, or it is
  1 and all three function pointers are resolved; every key operation keeps this and
  ends without a call through a null pointer. \<open>load_qseecom_library\<close> sets the flag
  only after \<open>dlopen\<close> and the three \<open>dlsym\<close> calls, in the order create, update,
  wipe, have all succeeded. Once the flag is set, \<open>load_qseecom_library\<close> returns at
  once and no key operation changes the flag, polls the readiness property or calls
  the dynamic linker again. When the flag is still 0 after a key operation, the
  operation has called no entry point of the TEE library, and it has returned its
  sentinel (-7 set, -9 update, -8 wipe) if it got as far as its wrapper and -1 if it
  stopped before (mode other than \<open>aes-xts\<close>, null password, failed allocation); a
  wrapper for which \<open>load_qseecom_library\<close> returns 0 returns exactly its sentinel.
\<close>

theorem library_flag_set_only_after_full_resolution:
  "(reachable w \<longrightarrow> library_state_ok w) \<and>
   (library_state_ok w \<longrightarrow>
      library_state_ok (snd (run_op op w)) \<and> (\<exists>e. fst (run_op op w) = Inr e)) \<and>
   (loaded_library w = 0 \<and> loaded_library (snd (load_qseecom_library w)) \<noteq> 0 \<longrightarrow>
      fst (is_qseecom_up w) \<noteq> 0 \<and> dlopen_ok w QSEECOM_LIBRARY_NAME \<and>
      dlsym_ok w ''QSEECom_create_key'' \<and> dlsym_ok w ''QSEECom_update_key_user_info'' \<and>
      dlsym_ok w ''QSEECom_wipe_key'' \<and>
      loaded_library (snd (load_qseecom_library w)) = 1 \<and>
      pointers_resolved (snd (load_qseecom_library w)) \<and>
      dl_calls (snd (load_qseecom_library w)) =
        dl_calls w @ [Dlopen QSEECOM_LIBRARY_NAME, Dlsym ''QSEECom_create_key'',
                      Dlsym ''QSEECom_update_key_user_info'', Dlsym ''QSEECom_wipe_key'']) \<and>
   (loaded_library w \<noteq> 0 \<longrightarrow>
      load_qseecom_library w = (loaded_library w, w) \<and>
      loaded_library (snd (run_op op w)) = loaded_library w \<and>
      polls (snd (run_op op w)) = polls w \<and>
      dl_calls (snd (run_op op w)) = dl_calls w) \<and>
   (loaded_library (snd (run_op op w)) = 0 \<longrightarrow>
      tee_calls (snd (run_op op w)) = tee_calls w \<and>
      fst (run_op op w) = Inr (if reaches_wrapper op w then sentinel op else - 1)) \<and>
   (fst (load_qseecom_library w) = 0 \<longrightarrow>
      tee_calls (snd (load_qseecom_library w)) = tee_calls w \<and>
      cryptfs_hw_create_key u h w = (Inr CRYPTFS_HW_CREATE_KEY_FAILED, snd (load_qseecom_library w)) \<and>
      cryptfs_hw_update_key u c h w = (Inr CRYPTFS_HW_UPDATE_KEY_FAILED, snd (load_qseecom_library w)) \<and>
      cryptfs_hw_wipe_key u w = (Inr CRYPTFS_HW_WIPE_KEY_FAILED, snd (load_qseecom_library w)))"
proof (intro conjI impI)
  assume "loaded_library w = 0 \<and> loaded_library (snd (load_qseecom_library w)) \<noteq> 0"
  then have z: "loaded_library w = 0" and nz: "loaded_library (snd (load_qseecom_library w)) \<noteq> 0"
    by simp_all
  note shape = load_success_shape [OF z nz]
  from shape show "fst (is_qseecom_up w) \<noteq> 0" by simp
  from shape show "dlopen_ok w QSEECOM_LIBRARY_NAME" by simp
  from shape show "dlsym_ok w ''QSEECom_create_key''" by simp
  from shape show "dlsym_ok w ''QSEECom_update_key_user_info''" by simp
  from shape show "dlsym_ok w ''QSEECom_wipe_key''" by simp
  from shape show "loaded_library (snd (load_qseecom_library w)) = 1" by simp
  from shape show "pointers_resolved (snd (load_qseecom_library w))"
    by (simp add: pointers_resolved_def)
  from shape show "dl_calls (snd (load_qseecom_library w)) =
        dl_calls w @ [Dlopen QSEECOM_LIBRARY_NAME, Dlsym ''QSEECom_create_key'',
                      Dlsym ''QSEECom_update_key_user_info'', Dlsym ''QSEECom_wipe_key'']"
    by simp
next
  assume "loaded_library (snd (run_op op w)) = 0"
  from run_op_unloaded_exact [OF this]
  show "tee_calls (snd (run_op op w)) = tee_calls w"
    and "fst (run_op op w) = Inr (if reaches_wrapper op w then sentinel op else - 1)"
    by simp_all
qed (simp_all add: reachable_ok run_op_keeps_ok run_op_no_fault load_when_loaded
      run_op_loaded_skips load_fields create_unavailable update_unavailable wipe_unavailable)

theorem library_flag_set_only_after_full_resolution_witness:
  "reachable booted_device \<and> library_state_ok booted_device \<and>
   loaded_library booted_device = 0 \<and>
   loaded_library (snd (load_qseecom_library booted_device)) \<noteq> 0 \<and>
   pointers_resolved (snd (load_qseecom_library booted_device)) \<and>
   dl_calls (snd (load_qseecom_library booted_device)) =
     [Dlopen QSEECOM_LIBRARY_NAME, Dlsym ''QSEECom_create_key'',
      Dlsym ''QSEECom_update_key_user_info'', Dlsym ''QSEECom_wipe_key''] \<and>
   loaded_library (snd (run_op Clear_key (snd (load_qseecom_library booted_device)))) = 1 \<and>
   polls (snd (run_op Clear_key (snd (load_qseecom_library booted_device)))) = 1 \<and>
   loaded_library (snd (run_op Clear_key stalled_device)) = 0 \<and>
   fst (load_qseecom_library stalled_device) = 0 \<and>
   tee_calls (snd (run_op Clear_key stalled_device)) = [] \<and>
   fst (run_op Clear_key stalled_device) = Inr CRYPTFS_HW_WIPE_KEY_FAILED \<and>
   loaded_library
     (snd (run_op (Update_key (Some [0x6F, 0x6C, 0x64]) (Some [0x70, 0x77]) (Some ''aes-xts''))
        stalled_device)) = 0 \<and>
   fst (run_op (Update_key (Some [0x6F, 0x6C, 0x64]) (Some [0x70, 0x77]) (Some ''aes-xts''))
     stalled_device) = Inr CRYPTFS_HW_UPDATE_KEY_FAILED \<and>
   fst (run_op (Set_key (Some [0x70, 0x77]) (Some ''aes-xts'')) stalled_device) =
     Inr CRYPTFS_HW_CREATE_KEY_FAILED \<and>
   fst (run_op (Update_key None (Some [0x70, 0x77]) (Some ''aes-xts'')) stalled_device) = Inr (- 1) \<and>
   fst (run_op (Set_key (Some [0x70, 0x77]) (Some ''aes-cbc-essiv:sha256'')) stalled_device) =
     Inr (- 1) \<and>
   cryptfs_hw_create_key 4 0 stalled_device =
     (Inr CRYPTFS_HW_CREATE_KEY_FAILED, stalled_device\<lparr>polls := CRYPTFS_HW_UP_CHECK_COUNT\<rparr>)"
proof -
  let ?L = "snd (load_qseecom_library booted_device)"
  let ?u = "map_usage stalled_device CRYPTFS_HW_KM_USAGE_DISK_ENCRYPTION"
  note A = library_flag_set_only_after_full_resolution [of booted_device Clear_key 4 0 0]
  note B = library_flag_set_only_after_full_resolution [of ?L Clear_key 4 0 0]
  note C = library_flag_set_only_after_full_resolution [of stalled_device Clear_key 4 0 0]
  note D = library_flag_set_only_after_full_resolution [of stalled_device Clear_key ?u 0 0]
  have r: "reachable booted_device" by (rule reachable.start) (rule booted_start)
  have f: "loaded_library booted_device = 0" "dl_calls booted_device = []"
    "tee_calls stalled_device = []" "loaded_library stalled_device = 0"
    by (simp_all add: booted_device_def stalled_device_def)
  have nz: "loaded_library ?L \<noteq> 0" by (simp add: booted_loads)
  have sl: "fst (load_qseecom_library stalled_device) = 0" by (simp add: stalled_unloaded)
  have s: "loaded_library (snd (run_op Clear_key stalled_device)) = 0"
    by (simp add: clear_hw_device_encryption_key_def wipe_unavailable stalled_unloaded f)
  from A r have a1: "library_state_ok booted_device" by blast
  from A f(1) nz have a3: "pointers_resolved ?L \<and>
      dl_calls ?L = dl_calls booted_device @ [Dlopen QSEECOM_LIBRARY_NAME,
        Dlsym ''QSEECom_create_key'', Dlsym ''QSEECom_update_key_user_info'',
        Dlsym ''QSEECom_wipe_key'']"
    by blast
  from B nz have b: "loaded_library (snd (run_op Clear_key ?L)) = loaded_library ?L \<and>
      polls (snd (run_op Clear_key ?L)) = polls ?L"
    by blast
  from C s have c5: "tee_calls (snd (run_op Clear_key stalled_device)) = tee_calls stalled_device"
    by blast
  from C sl have c6: "cryptfs_hw_create_key 4 0 stalled_device =
      (Inr CRYPTFS_HW_CREATE_KEY_FAILED, snd (load_qseecom_library stalled_device))"
    by blast
  from D sl have d6: "cryptfs_hw_wipe_key ?u stalled_device =
      (Inr CRYPTFS_HW_WIPE_KEY_FAILED, snd (load_qseecom_library stalled_device))"
    by blast
  then have d: "fst (run_op Clear_key stalled_device) = Inr CRYPTFS_HW_WIPE_KEY_FAILED"
    by (simp add: clear_hw_device_encryption_key_def)
  have nr: "\<forall>k. sys_keymaster_loaded stalled_device k \<noteq> Some ''true''"
    by (simp add: stalled_device_def booted_device_def)
  note un = never_ready_stays_unloaded [OF f(4) nr]
  let ?upd = "Update_key (Some [0x6F, 0x6C, 0x64]) (Some [0x70, 0x77]) (Some ''aes-xts'')"
  let ?set = "Set_key (Some [0x70, 0x77]) (Some ''aes-xts'')"
  let ?skipped = "Update_key None (Some [0x70, 0x77]) (Some ''aes-xts'')"
  let ?gated = "Set_key (Some [0x70, 0x77]) (Some ''aes-cbc-essiv:sha256'')"
  have rw: "reaches_wrapper ?upd stalled_device" "reaches_wrapper ?set stalled_device"
    "\<not> reaches_wrapper ?skipped stalled_device" "\<not> reaches_wrapper ?gated stalled_device"
    by (simp_all add: stalled_device_def booted_device_def)
  from library_flag_set_only_after_full_resolution [of stalled_device ?upd 4 0 0] un [of ?upd] rw(1)
  have e1: "fst (run_op ?upd stalled_device) = Inr CRYPTFS_HW_UPDATE_KEY_FAILED"
    by simp
  from library_flag_set_only_after_full_resolution [of stalled_device ?set 4 0 0] un [of ?set] rw(2)
  have e2: "fst (run_op ?set stalled_device) = Inr CRYPTFS_HW_CREATE_KEY_FAILED"
    by simp
  from library_flag_set_only_after_full_resolution [of stalled_device ?skipped 4 0 0]
    un [of ?skipped] rw(3)
  have e3: "fst (run_op ?skipped stalled_device) = Inr (- 1)"
    by simp
  from library_flag_set_only_after_full_resolution [of stalled_device ?gated 4 0 0]
    un [of ?gated] rw(4)
  have e4: "fst (run_op ?gated stalled_device) = Inr (- 1)"
    by simp
  have bl: "loaded_library ?L = 1" "polls ?L = 1" by (simp_all add: booted_loads)
  have st: "snd (load_qseecom_library stalled_device) =
      stalled_device\<lparr>polls := CRYPTFS_HW_UP_CHECK_COUNT\<rparr>"
    by (simp add: stalled_unloaded)
  from r a1 f nz a3 b s sl c5 c6 d e1 e2 e3 e4 un [of ?upd] show ?thesis
    unfolding bl st by simp
qed

text \<open>
  Claim C4. \<open>is_ice_enabled\<close> returns 0 when the metadata partition exists, whatever
  \<open>ro.boot.bootdevice\<close> holds; otherwise 1 when the property contains \<open>ufs\<close>;
  otherwise 2 when the property contains \<open>sdhc\<close> and \<open>/dev/icesdcc\<close> exists; and 0 in
  every other case (an unset or empty property reads as the empty string).
\<close>

theorem is_ice_enabled_backend:
  "is_ice_enabled w =
     (let bootdevice = (case ro_boot_bootdevice w of None \<Rightarrow> [] | Some s \<Rightarrow> s) in
      if path_exists w METADATA_PARTITION_NAME then 0
      else if sublist ''ufs'' bootdevice then QTI_ICE_STORAGE_UFS
      else if sublist ''sdhc'' bootdevice \<and> path_exists w ''/dev/icesdcc'' then QTI_ICE_STORAGE_SDCC
      else 0)"
  unfolding is_ice_enabled_def access_def property_get_def Let_def strstr_sublist
  by (auto split: option.splits)

text \<open>
  Claim C5. \<open>is_hw_disk_encryption\<close> returns true (1) exactly when its argument is the
  string \<open>aes-xts\<close>; it returns false (0) on the null pointer and on every other string.
\<close>

theorem is_hw_disk_encryption_exact_literal:
  "(is_hw_disk_encryption mode \<noteq> 0) = (mode = Some ''aes-xts'') \<and>
   is_hw_disk_encryption mode = (if mode = Some ''aes-xts'' then 1 else 0) \<and>
   is_hw_disk_encryption None = 0"
  by (simp add: is_hw_disk_encryption_def strcmp_def split: option.splits)

text \<open>
  Claim C6. When the mode is the null pointer or any string other than \<open>aes-xts\<close>,
  \<open>set_hw_device_encryption_key\<close> and \<open>update_hw_device_encryption_key\<close> return -1
  and leave the whole state as it was: no buffer is allocated, no entry point of the
  TEE library is called, and the result is a return value, not a fault.
\<close>

theorem key_operations_gated_by_mode:
  assumes "mode \<noteq> Some ''aes-xts''"
  shows "set_hw_device_encryption_key passwd mode w = (Inr (- 1), w) \<and>
         update_hw_device_encryption_key oldpw newpw mode w = (Inr (- 1), w)"
proof -
  from assms have "is_hw_disk_encryption mode = 0"
    by (simp add: is_hw_disk_encryption_def strcmp_def split: option.splits)
  then show ?thesis
    by (simp add: set_hw_device_encryption_key_def update_hw_device_encryption_key_def
        set_key_disabled)
qed

theorem key_operations_gated_by_mode_witness:
  "Some ''aes-cbc-essiv:sha256'' \<noteq> Some ''aes-xts'' \<and> (None :: string option) \<noteq> Some ''aes-xts'' \<and>
   set_hw_device_encryption_key (Some [0x70, 0x77]) (Some ''aes-cbc-essiv:sha256'') booted_device
     = (Inr (- 1), booted_device) \<and>
   update_hw_device_encryption_key (Some [0x6F]) (Some [0x70, 0x77]) None booted_device
     = (Inr (- 1), booted_device)"
  using key_operations_gated_by_mode [of "Some ''aes-cbc-essiv:sha256''" "Some [0x70, 0x77]" booted_device]
    key_operations_gated_by_mode [of None _ booted_device "Some [0x6F]" "Some [0x70, 0x77]"]
  by simp

text \<open>
  Claim C7. \<open>clear_hw_device_encryption_key\<close> takes no mode. In every state of a run
  it calls the wipe entry point with the usage code \<open>map_usage\<close> computes from the
  disk-encryption code (3 on UFS with inline crypto, 4 on SDCC with inline crypto, 1
  otherwise) and returns the status of that call unchanged when
  \<open>load_qseecom_library\<close> reports the library loaded; it returns
  \<open>CRYPTFS_HW_WIPE_KEY_FAILED\<close> (-8), without any call, when the library cannot be
  loaded.
\<close>

theorem wipe_key_not_gated_forwards_to_primitive:
  assumes run: "reachable w"
  shows "map_usage w CRYPTFS_HW_KM_USAGE_DISK_ENCRYPTION =
           (if is_ice_enabled w = QTI_ICE_STORAGE_UFS then CRYPTFS_HW_KM_USAGE_UFS_ICE_DISK_ENCRYPTION
            else if is_ice_enabled w = QTI_ICE_STORAGE_SDCC
              then CRYPTFS_HW_KM_USAGE_SDCC_ICE_DISK_ENCRYPTION
            else CRYPTFS_HW_KM_USAGE_DISK_ENCRYPTION) \<and>
         (fst (load_qseecom_library w) \<noteq> 0 \<longrightarrow>
            clear_hw_device_encryption_key w =
              (Inr (tee_status w (tee_calls w)
                      (Tee_call ''QSEECom_wipe_key'' (map_usage w CRYPTFS_HW_KM_USAGE_DISK_ENCRYPTION) [])),
               (snd (load_qseecom_library w))
                 \<lparr>tee_calls := tee_calls w @
                    [Tee_call ''QSEECom_wipe_key'' (map_usage w CRYPTFS_HW_KM_USAGE_DISK_ENCRYPTION) []]\<rparr>)) \<and>
         (fst (load_qseecom_library w) = 0 \<longrightarrow>
            clear_hw_device_encryption_key w =
              (Inr CRYPTFS_HW_WIPE_KEY_FAILED, snd (load_qseecom_library w)) \<and>
            tee_calls (snd (clear_hw_device_encryption_key w)) = tee_calls w)"
  using clear_shape [OF reachable_ok [OF run]] map_usage_disk [of w]
  by (simp add: Let_def load_fields)

theorem wipe_key_not_gated_forwards_to_primitive_witness:
  "reachable booted_device \<and> fst (load_qseecom_library booted_device) \<noteq> 0 \<and>
   fst (clear_hw_device_encryption_key booted_device) = Inr 0 \<and>
   tee_calls (snd (clear_hw_device_encryption_key booted_device)) = [Tee_call ''QSEECom_wipe_key'' 4 []] \<and>
   reachable stalled_device \<and> fst (load_qseecom_library stalled_device) = 0 \<and>
   fst (clear_hw_device_encryption_key stalled_device) = Inr CRYPTFS_HW_WIPE_KEY_FAILED \<and>
   tee_calls (snd (clear_hw_device_encryption_key stalled_device)) = []"
proof -
  have h: "tee_calls booted_device = []" "tee_status booted_device = (\<lambda>h c. 0)"
    "tee_calls stalled_device = []"
    by (simp_all add: booted_device_def stalled_device_def)
  have rb: "reachable booted_device" by (rule reachable.start) (rule booted_start)
  have rs: "reachable stalled_device" by (rule reachable.start) (rule stalled_start)
  show ?thesis
    using wipe_key_not_gated_forwards_to_primitive [OF rb]
      wipe_key_not_gated_forwards_to_primitive [OF rs]
    by (simp add: booted_loads stalled_unloaded rb rs h booted_usage)
qed

text \<open>
  Claim C8. For a password that is not null and whose buffer is allocated, the buffer
  \<open>get_tmp_passwd\<close> builds has 32 bytes; when the password is longer than 32 bytes the
  buffer is a strict prefix of it; when the password is shorter than 32 bytes the
  buffer starts with the whole password and every byte after it is zero. In every
  state of a run this buffer is what \<open>set_hw_device_encryption_key\<close> passes to the
  create-key entry point when the library is loaded.
\<close>

theorem tmp_passwd_truncated_or_zero_padded:
  assumes alloc: "malloc_outcome w (mallocs w) = Some g"
  shows "fst (get_tmp_passwd (Some s) w) = Some (length (heap w)) \<and>
     (let buf = peek (snd (get_tmp_passwd (Some s) w)) (length (heap w)) in
        length buf = MAX_PASSWORD_LEN \<and>
        (MAX_PASSWORD_LEN < length s \<longrightarrow> strict_prefix buf s) \<and>
        (length s < MAX_PASSWORD_LEN \<longrightarrow>
           prefix s buf \<and> (\<forall>i. length s \<le> i \<and> i < MAX_PASSWORD_LEN \<longrightarrow> buf ! i = 0)) \<and>
        (reachable w \<and> fst (load_qseecom_library w) \<noteq> 0 \<longrightarrow>
           tee_calls (snd (set_hw_device_encryption_key (Some s) (Some ''aes-xts'') w)) =
             tee_calls w @ [Tee_call ''QSEECom_create_key''
               (map_usage w CRYPTFS_HW_KM_USAGE_DISK_ENCRYPTION) [buf]]))"
proof -
  define buf where "buf = take MAX_PASSWORD_LEN s @ replicate (MAX_PASSWORD_LEN - length s) (0::byte)"
  have pk: "peek (snd (get_tmp_passwd (Some s) w)) (length (heap w)) = buf"
    by (simp add: get_tmp_passwd_buffer [OF alloc] peek_def buf_def)
  have len: "length buf = MAX_PASSWORD_LEN" by (simp add: buf_def)
  have long: "strict_prefix buf s" if "MAX_PASSWORD_LEN < length s"
  proof -
    from that have "buf = take MAX_PASSWORD_LEN s" by (simp add: buf_def)
    moreover have "prefix (take MAX_PASSWORD_LEN s) s" by (rule take_is_prefix)
    moreover from that have "take MAX_PASSWORD_LEN s \<noteq> s"
      by (metis length_take min.absorb2 less_imp_le_nat nat_neq_iff)
    ultimately show ?thesis by (simp add: strict_prefix_def)
  qed
  have short: "prefix s buf \<and> (\<forall>i. length s \<le> i \<and> i < MAX_PASSWORD_LEN \<longrightarrow> buf ! i = 0)"
    if "length s < MAX_PASSWORD_LEN"
    using that by (auto simp: buf_def nth_append)
  show ?thesis
    unfolding pk Let_def
    using len long short set_key_forwards_buffer [OF reachable_ok alloc, of s]
    by (simp add: get_tmp_passwd_buffer [OF alloc] buf_def)
qed

theorem tmp_passwd_truncated_or_zero_padded_witness:
  "malloc_outcome booted_device (mallocs booted_device) = Some (\<lambda>i. 0xA5) \<and>
   reachable booted_device \<and> fst (load_qseecom_library booted_device) \<noteq> 0 \<and>
   length [0x70, 0x77 :: byte] < MAX_PASSWORD_LEN \<and>
   MAX_PASSWORD_LEN < length (replicate 40 (0x61 :: byte)) \<and>
   prefix [0x70, 0x77] (peek (snd (get_tmp_passwd (Some [0x70, 0x77]) booted_device)) 0) \<and>
   peek (snd (get_tmp_passwd (Some [0x70, 0x77]) booted_device)) 0 ! 2 = 0 \<and>
   peek (snd (get_tmp_passwd (Some [0x70, 0x77]) booted_device)) 0 ! 31 = 0 \<and>
   tee_calls (snd (set_hw_device_encryption_key (Some [0x70, 0x77]) (Some ''aes-xts'') booted_device)) =
     [Tee_call ''QSEECom_create_key'' 4
        [peek (snd (get_tmp_passwd (Some [0x70, 0x77]) booted_device)) 0]] \<and>
   length (peek (snd (get_tmp_passwd (Some (replicate 40 0x61)) booted_device)) 0) = MAX_PASSWORD_LEN \<and>
   strict_prefix (peek (snd (get_tmp_passwd (Some (replicate 40 0x61)) booted_device)) 0)
     (replicate 40 0x61)"
proof -
  have a: "malloc_outcome booted_device (mallocs booted_device) = Some (\<lambda>i. 0xA5)"
    by (simp add: booted_device_def)
  have h: "heap booted_device = []" "tee_calls booted_device = []"
    by (simp_all add: booted_device_def)
  have l: "fst (load_qseecom_library booted_device) \<noteq> 0" by (simp add: booted_loads)
  show ?thesis
    using tmp_passwd_truncated_or_zero_padded [OF a, of "[0x70, 0x77]"]
      tmp_passwd_truncated_or_zero_padded [OF a, of "replicate 40 0x61"]
      a l reachable.start [OF booted_start]
    by (simp add: Let_def h booted_usage)
qed

text \<open>
  Claim C9. \<open>should_use_keymaster\<close> returns false (0) exactly when
  \<open>get_keymaster_version\<close> yields \<open>KEYMASTER_MODULE_API_VERSION_0_3\<close>, and true (1) on
  every other outcome. The outcome is the \<open>module_api_version\<close> of the keystore module
  when the probe succeeds and the return code of the probe when it fails; a probe that
  fails with a negative code makes \<open>should_use_keymaster\<close> return true.
\<close>

theorem should_use_keymaster_legacy_only:
  "(should_use_keymaster w = 0) = (get_keymaster_version w = KEYMASTER_MODULE_API_VERSION_0_3) \<and>
   (should_use_keymaster w = 1) = (get_keymaster_version w \<noteq> KEYMASTER_MODULE_API_VERSION_0_3) \<and>
   (keystore_rc w = 0 \<longrightarrow> get_keymaster_version w = uint (keystore_module_api_version w)) \<and>
   (keystore_rc w \<noteq> 0 \<longrightarrow> get_keymaster_version w = keystore_rc w) \<and>
   (keystore_rc w < 0 \<longrightarrow> should_use_keymaster w = 1)"
  by (simp add: should_use_keymaster_def get_keymaster_version_def
      KEYMASTER_MODULE_API_VERSION_0_3_def Let_def)

theorem should_use_keymaster_legacy_only_witness:
  "keystore_rc (booted_device\<lparr>keystore_rc := - 2\<rparr>) < 0 \<and>
   should_use_keymaster (booted_device\<lparr>keystore_rc := - 2\<rparr>) = 1 \<and>
   keystore_rc booted_device = 0 \<and> should_use_keymaster booted_device = 0 \<and>
   should_use_keymaster (booted_device\<lparr>keystore_module_api_version := 0x100\<rparr>) = 1"
  using should_use_keymaster_legacy_only [of "booted_device\<lparr>keystore_rc := - 2\<rparr>"]
    should_use_keymaster_legacy_only [of booted_device]
    should_use_keymaster_legacy_only [of "booted_device\<lparr>keystore_module_api_version := 0x100\<rparr>"]
  by (simp add: booted_device_def KEYMASTER_MODULE_API_VERSION_0_3_def)

text \<open>
  Claim C10. With a null password, \<open>set_hw_device_encryption_key\<close> returns -1 in every
  mode and changes nothing; with a null new password,
  \<open>update_hw_device_encryption_key\<close> returns -1 and calls no entry point of the TEE
  library, whatever the old password and the mode. \<open>get_tmp_passwd\<close> builds no buffer
  for a null password.
\<close>

theorem null_password_never_forwarded:
  "set_hw_device_encryption_key None mode w = (Inr (- 1), w) \<and>
   fst (update_hw_device_encryption_key oldpw None mode w) = Inr (- 1) \<and>
   tee_calls (snd (update_hw_device_encryption_key oldpw None mode w)) = tee_calls w \<and>
   get_tmp_passwd None w = (None, w)"
proof -
  have n: "get_tmp_passwd None w = (None, w)" by (rule get_tmp_passwd_null)
  have s: "set_key None None mode SET_HW_DISK_ENC_KEY w = (Inr (- 1), w)"
    by (cases "is_hw_disk_encryption mode = 0")
       (simp_all add: set_key_disabled set_key_no_new_buffer [OF _ n] n)
  have u: "set_key oldpw None mode UPDATE_HW_DISK_ENC_KEY w =
      (Inr (- 1), if is_hw_disk_encryption mode = 0 then w else snd (get_tmp_passwd oldpw w))"
    by (cases "is_hw_disk_encryption mode = 0")
       (simp_all add: set_key_disabled set_key_no_new_buffer [OF _ n])
  show ?thesis
    by (simp add: set_hw_device_encryption_key_def update_hw_device_encryption_key_def s u n
        get_tmp_passwd_fields)
qed

end
